theory Spec2Isabelle
  imports Main "HOL-Library.Word" "HOL-Library.Multiset"
begin

section \<open>NVDLA queue and task management: data model\<close>

text \<open>
  A shallow embedding of the NVDLA queue and task management code (the file headed
  "NVDLA queue and task management for T194"). Machine integers are words; C return codes are
  \<open>int\<close> with \<open>0\<close> for success. Headers that declare constants and struct layouts are
  not part of the sources: enumerations are datatypes named after the C constants, and
  every value a \<^verbatim>\<open>default:\<close> branch can meet is the extra constructor.
\<close>

type_synonym u16 = "16 word"
type_synonym u32 = "32 word"
type_synonym u64 = "64 word"

definition EINVAL :: int where "EINVAL = 22"
definition EFAULT :: int where "EFAULT = 14"

datatype fence_type =
    NVDEV_FENCE_TYPE_SYNCPT
  | NVDEV_FENCE_TYPE_SYNC_FD
  | NVDEV_FENCE_TYPE_SEMAPHORE
  | NVDEV_FENCE_TYPE_SEMAPHORE_TS
  | NVDEV_FENCE_TYPE_UNKNOWN

datatype fence_action =
    NVDEV_FENCE_WAIT
  | NVDEV_FENCE_SIGNAL
  | NVDEV_FENCE_SIGNAL_STRIDE
  | NVDEV_FENCE_ACTION_UNKNOWN

datatype buffer_type = NVDLA_BUFFER_TYPE_INTERNAL | NVDLA_BUFFER_TYPE_EXTERNAL

text \<open>\<^verbatim>\<open>struct nvdev_fence\<close>; the C field \<^verbatim>\<open>type\<close> is \<open>ftype\<close> here.\<close>

record nvdev_fence =
  ftype :: fence_type
  action :: fence_action
  syncpoint_index :: u32
  syncpoint_value :: u32
  sync_fd :: u32
  semaphore_handle :: u32
  semaphore_offset :: u32
  semaphore_value :: u32

text \<open>\<^verbatim>\<open>struct nvdla_mem_handle\<close> (fields \<^verbatim>\<open>handle\<close>, \<^verbatim>\<open>offset\<close>, \<^verbatim>\<open>type\<close>).\<close>

record nvdla_mem_handle =
  handle :: u32
  offset :: u32
  btype :: buffer_type

text \<open>\<^verbatim>\<open>struct nvdla_status_notify\<close> (fields \<^verbatim>\<open>handle\<close>, \<^verbatim>\<open>offset\<close>, \<^verbatim>\<open>status\<close>).\<close>

record nvdla_status_notify =
  st_handle :: u32
  st_offset :: u32
  status :: u16

text \<open>
  Action records. \<^verbatim>\<open>add_opcode\<close> writes a \<^verbatim>\<open>struct dla_action_opcode\<close> at the cursor
  and the other writers put their payload struct right behind it; the region between
  \<^verbatim>\<open>start\<close> and the cursor \<^verbatim>\<open>next\<close> is the list of structs written so far.
\<close>

datatype dla_opcode =
    ACTION_TERMINATE
  | ACTION_SEM_GE
  | ACTION_WRITE_SEM
  | ACTION_INCREMENT_SEM
  | ACTION_WRITE_TS_SEM
  | ACTION_TASK_STATUS_EQ
  | ACTION_WRITE_TASK_STATUS
  | ACTION_WRITE_TIMESTAMP

datatype dla_action =
    Dla_action_opcode dla_opcode
  | Dla_action_semaphore u64 u32
  | Dla_action_task_status u64 u16
  | Dla_action_timestamp u64

type_synonym mem = "dla_action list"

text \<open>
  The part of \<^verbatim>\<open>struct dla_task_descriptor\<close> and of the memory behind it that the
  functions below write. \<open>preactionl\<close> and \<open>postactionl\<close> are the two list heads: a head is
  \<open>None\<close> until it is written, and then holds the actions its offset and size delimit.
\<close>

record dla_task_descriptor =
  td_timeout :: u32
  td_bypass_exec :: bool
  td_sequence :: u32
  td_queue_id :: u32
  td_next :: u64
  preactionl :: "mem option"
  postactionl :: "mem option"
  address_list :: "u64 list"
  td_num_addresses :: nat

text \<open>\<^verbatim>\<open>struct nvdla_task\<close>; the counts \<^verbatim>\<open>num_*\<close> are the lengths of the lists.\<close>

record nvdla_task =
  task_desc :: dla_task_descriptor
  task_desc_pa :: u64
  timeout :: u32
  fence :: u32
  fence_counter :: u32
  kref :: int
  prefences :: "nvdev_fence list"
  postfences :: "nvdev_fence list"
  in_task_status :: "nvdla_status_notify list"
  sof_task_status :: "nvdla_status_notify list"
  eof_task_status :: "nvdla_status_notify list"
  sof_timestamps :: "nvdla_mem_handle list"
  eof_timestamps :: "nvdla_mem_handle list"
  memory_handles :: "nvdla_mem_handle list"

text \<open>\<^verbatim>\<open>struct nvdla_queue\<close>: the task list holds the addresses of the queued tasks.\<close>

record nvdla_queue =
  q_id :: u32
  syncpt_id :: u32
  sequence :: u32
  tasklist :: "nat list"

section \<open>External services\<close>

text \<open>
  What the collaborators outside this file answer. \<open>pin_result h\<close> is the return code and
  the DMA address of \<^verbatim>\<open>nvdla_buffer_submit_pin\<close> for handle \<open>h\<close>; \<open>nvhost_fence_get fd\<close> is
  the list of (id, threshold) points of a sync file descriptor, \<open>None\<close> when the lookup
  fails; \<open>profile_status_offset\<close> is what \<^verbatim>\<open>nvdla_profile_status_offset\<close> computes from the
  struct sizes.
\<close>

record nvdla_env =
  nvhost_syncpt_address :: "u32 \<Rightarrow> u64"
  nvhost_syncpt_is_valid_pt_ext :: "u32 \<Rightarrow> bool"
  nvhost_fence_get :: "u32 \<Rightarrow> (u32 \<times> u32) list option"
  pin_result :: "u32 \<Rightarrow> int \<times> u64"
  profile_status_offset :: u64
  DLA_ERR_PROCESSOR_BUSY :: int

text \<open>
  Modelled from the spec: the Buffer Registry (\<^verbatim>\<open>nvdla_buffer_submit_pin\<close> and
  \<^verbatim>\<open>nvdla_buffer_submit_unpin\<close> are not in the sources). Pinning takes a reference on a
  handle and unpinning gives one back; the registry here keeps the two call records, so
  the count of a handle is its pins less its unpins.
\<close>

record nvdla_buffers =
  pinned :: "u32 list"
  unpinned :: "u32 list"

definition nvdla_buffer_submit_pin ::
  "nvdla_env \<Rightarrow> nvdla_buffers \<Rightarrow> u32 \<Rightarrow> int \<times> u64 \<times> nvdla_buffers" where
  "nvdla_buffer_submit_pin env bufs h =
     (let (err, dma_addr) = pin_result env h in
      if err \<noteq> 0 then (err, dma_addr, bufs)
      else (0, dma_addr, bufs\<lparr>pinned := pinned bufs @ [h]\<rparr>))"

definition nvdla_buffer_submit_unpin :: "nvdla_buffers \<Rightarrow> u32 \<Rightarrow> nvdla_buffers" where
  "nvdla_buffer_submit_unpin bufs h = bufs\<lparr>unpinned := unpinned bufs @ [h]\<rparr>"

section \<open>Writing actions\<close>

definition add_address :: "u64 list \<Rightarrow> u64 \<Rightarrow> u64 list" where
  "add_address m addr = m @ [addr]"

definition add_opcode :: "mem \<Rightarrow> dla_opcode \<Rightarrow> mem" where
  "add_opcode m op = m @ [Dla_action_opcode op]"

definition add_fence_action :: "mem \<Rightarrow> dla_opcode \<Rightarrow> u64 \<Rightarrow> u32 \<Rightarrow> mem" where
  "add_fence_action m op addr val = add_opcode m op @ [Dla_action_semaphore addr val]"

definition add_status_action :: "mem \<Rightarrow> dla_opcode \<Rightarrow> u64 \<Rightarrow> u16 \<Rightarrow> mem" where
  "add_status_action m op addr st = add_opcode m op @ [Dla_action_task_status addr st]"

definition add_timestamp_action :: "mem \<Rightarrow> dla_opcode \<Rightarrow> u64 \<Rightarrow> mem" where
  "add_timestamp_action m op addr = add_opcode m op @ [Dla_action_timestamp addr]"

text \<open>
  The state the fill functions work on: the task (for its \<open>fence_counter\<close>), the buffer
  registry and the cursor, as the actions written since \<^verbatim>\<open>start\<close>.
\<close>

record fill_state =
  fs_task :: nvdla_task
  fs_buffers :: nvdla_buffers
  fs_next :: mem

definition nvdla_add_fence_action_cb :: "nvdla_env \<Rightarrow> u32 \<times> u32 \<Rightarrow> mem \<Rightarrow> int \<times> mem" where
  "nvdla_add_fence_action_cb env info m =
     (let id = fst info; thresh = snd info in
      if id = 0 \<or> \<not> nvhost_syncpt_is_valid_pt_ext env id then (- EINVAL, m)
      else (0, add_fence_action m ACTION_SEM_GE (nvhost_syncpt_address env id) thresh))"

text \<open>
  Modelled from the spec: \<^verbatim>\<open>nvhost_fence_foreach_pt\<close> (not in the sources) calls the
  callback on each point of the fence in turn and stops at the first point for which the
  callback returns an error.
\<close>

fun nvhost_fence_foreach_pt :: "nvdla_env \<Rightarrow> (u32 \<times> u32) list \<Rightarrow> mem \<Rightarrow> int \<times> mem" where
  "nvhost_fence_foreach_pt env [] m = (0, m)"
| "nvhost_fence_foreach_pt env (info # pts) m =
     (let (err, m') = nvdla_add_fence_action_cb env info m in
      if err \<noteq> 0 then (err, m') else nvhost_fence_foreach_pt env pts m')"

definition nvdla_fill_wait_fence_action ::
  "nvdla_env \<Rightarrow> nvdla_queue \<Rightarrow> nvdev_fence \<Rightarrow> fill_state \<Rightarrow> int \<times> fill_state" where
  "nvdla_fill_wait_fence_action env queue f s =
     (case ftype f of
        NVDEV_FENCE_TYPE_SYNC_FD \<Rightarrow>
          (case nvhost_fence_get env (sync_fd f) of
             None \<Rightarrow> (0, s)
           | Some pts \<Rightarrow>
               (let (err, m) = nvhost_fence_foreach_pt env pts (fs_next s) in
                (err, s\<lparr>fs_next := m\<rparr>)))
      | NVDEV_FENCE_TYPE_SYNCPT \<Rightarrow>
          (0, s\<lparr>fs_next := add_fence_action (fs_next s) ACTION_SEM_GE
                  (nvhost_syncpt_address env (syncpoint_index f)) (syncpoint_value f)\<rparr>)
      | NVDEV_FENCE_TYPE_SEMAPHORE \<Rightarrow>
          (let (perr, dma_addr, bufs) =
                 nvdla_buffer_submit_pin env (fs_buffers s) (semaphore_handle f) in
           if perr \<noteq> 0 then (0, s)
           else (0, s\<lparr>fs_buffers := bufs,
                       fs_next := add_fence_action (fs_next s) ACTION_SEM_GE
                         (dma_addr + ucast (semaphore_offset f)) (semaphore_value f)\<rparr>))
      | NVDEV_FENCE_TYPE_SEMAPHORE_TS \<Rightarrow>
          (let (perr, dma_addr, bufs) =
                 nvdla_buffer_submit_pin env (fs_buffers s) (semaphore_handle f) in
           if perr \<noteq> 0 then (0, s)
           else (0, s\<lparr>fs_buffers := bufs,
                       fs_next := add_fence_action (fs_next s) ACTION_SEM_GE
                         (dma_addr + ucast (semaphore_offset f)) (semaphore_value f)\<rparr>))
      | NVDEV_FENCE_TYPE_UNKNOWN \<Rightarrow> (- EINVAL, s))"

definition nvdla_fill_signal_fence_action ::
  "nvdla_env \<Rightarrow> nvdla_queue \<Rightarrow> nvdev_fence \<Rightarrow> fill_state \<Rightarrow> int \<times> fill_state" where
  "nvdla_fill_signal_fence_action env queue f s =
     (let syncpt_signal =
            (0, s\<lparr>fs_next := add_fence_action (fs_next s) ACTION_WRITE_SEM
                     (nvhost_syncpt_address env (syncpt_id queue)) 1,
                   fs_task := (fs_task s)\<lparr>fence_counter := fence_counter (fs_task s) + 1\<rparr>\<rparr>)
      in
      case ftype f of
        NVDEV_FENCE_TYPE_SYNC_FD \<Rightarrow> syncpt_signal
      | NVDEV_FENCE_TYPE_SYNCPT \<Rightarrow> syncpt_signal
      | NVDEV_FENCE_TYPE_SEMAPHORE \<Rightarrow>
          (let (perr, dma_addr, bufs) =
                 nvdla_buffer_submit_pin env (fs_buffers s) (semaphore_handle f) in
           if perr \<noteq> 0 then (0, s)
           else if action f = NVDEV_FENCE_SIGNAL_STRIDE then
             (0, s\<lparr>fs_buffers := bufs,
                    fs_next := add_fence_action (fs_next s) ACTION_INCREMENT_SEM
                      (dma_addr + ucast (semaphore_offset f)) (semaphore_value f)\<rparr>)
           else
             (0, s\<lparr>fs_buffers := bufs,
                    fs_next := add_fence_action (fs_next s) ACTION_WRITE_SEM
                      (dma_addr + ucast (semaphore_offset f)) (semaphore_value f)\<rparr>))
      | NVDEV_FENCE_TYPE_SEMAPHORE_TS \<Rightarrow>
          (let (perr, dma_addr, bufs) =
                 nvdla_buffer_submit_pin env (fs_buffers s) (semaphore_handle f) in
           if perr \<noteq> 0 then (0, s)
           else (0, s\<lparr>fs_buffers := bufs,
                       fs_next := add_fence_action (fs_next s) ACTION_WRITE_TS_SEM
                         (dma_addr + ucast (semaphore_offset f)) (semaphore_value f)\<rparr>))
      | NVDEV_FENCE_TYPE_UNKNOWN \<Rightarrow> (- EINVAL, s))"

definition nvdla_fill_taskstatus_read_action ::
  "nvdla_env \<Rightarrow> nvdla_status_notify \<Rightarrow> fill_state \<Rightarrow> int \<times> fill_state" where
  "nvdla_fill_taskstatus_read_action env ts s =
     (let (perr, dma_addr, bufs) = nvdla_buffer_submit_pin env (fs_buffers s) (st_handle ts) in
      if perr \<noteq> 0 then (- EINVAL, s)
      else (0, s\<lparr>fs_buffers := bufs,
                  fs_next := add_status_action (fs_next s) ACTION_TASK_STATUS_EQ
                    (dma_addr + ucast (st_offset ts)) (status ts)\<rparr>))"

definition nvdla_fill_taskstatus_write_action ::
  "nvdla_env \<Rightarrow> nvdla_status_notify \<Rightarrow> fill_state \<Rightarrow> int \<times> fill_state" where
  "nvdla_fill_taskstatus_write_action env ts s =
     (let (perr, dma_addr, bufs) = nvdla_buffer_submit_pin env (fs_buffers s) (st_handle ts) in
      if perr \<noteq> 0 then (- EINVAL, s)
      else (0, s\<lparr>fs_buffers := bufs,
                  fs_next := add_status_action (fs_next s) ACTION_WRITE_TASK_STATUS
                    (dma_addr + ucast (st_offset ts)) (status ts)\<rparr>))"

definition nvdla_fill_timestamp_write_action ::
  "nvdla_env \<Rightarrow> nvdla_mem_handle \<Rightarrow> fill_state \<Rightarrow> int \<times> fill_state" where
  "nvdla_fill_timestamp_write_action env ts s =
     (let (perr, dma_addr, bufs) = nvdla_buffer_submit_pin env (fs_buffers s) (handle ts) in
      if perr \<noteq> 0 then (- EINVAL, s)
      else (0, s\<lparr>fs_buffers := bufs,
                  fs_next := add_timestamp_action (fs_next s) ACTION_WRITE_TIMESTAMP
                    (dma_addr + ucast (offset ts))\<rparr>))"

section \<open>Filling the action lists\<close>

text \<open>
  A \<^verbatim>\<open>for\<close> loop of the fill functions: an element for which \<open>skip\<close> holds is passed
  over (\<^verbatim>\<open>continue\<close>), the body's return code is kept in \<open>err\<close>, and a negative code
  leaves the function through \<^verbatim>\<open>goto fail\<close> (\<open>Inl\<close>); \<open>Inr\<close> is the loop run to its end.
\<close>

fun fill_loop ::
  "('a \<Rightarrow> bool) \<Rightarrow> ('a \<Rightarrow> 's \<Rightarrow> int \<times> 's) \<Rightarrow> 'a list \<Rightarrow> int \<Rightarrow> 's \<Rightarrow> (int \<times> 's) + (int \<times> 's)"
where
  "fill_loop skip body [] err s = Inr (err, s)"
| "fill_loop skip body (x # xs) err s =
     (if skip x then fill_loop skip body xs err s
      else (let (err', s') = body x s in
            if err' < 0 then Inl (err', s') else fill_loop skip body xs err' s'))"

definition and_then ::
  "(int \<times> 's) + (int \<times> 's) \<Rightarrow> (int \<Rightarrow> 's \<Rightarrow> (int \<times> 's) + (int \<times> 's)) \<Rightarrow> (int \<times> 's) + (int \<times> 's)"
where
  "and_then r k = (case r of Inl x \<Rightarrow> Inl x | Inr (err, s) \<Rightarrow> k err s)"

definition nvdla_fill_preactions ::
  "nvdla_env \<Rightarrow> nvdla_queue \<Rightarrow> nvdla_task \<Rightarrow> nvdla_buffers \<Rightarrow> int \<times> nvdla_task \<times> nvdla_buffers"
where
  "nvdla_fill_preactions env queue task bufs =
     (let s0 = \<lparr>fs_task = task, fs_buffers = bufs, fs_next = []\<rparr>;
          r1 = fill_loop (\<lambda>f. action f \<noteq> NVDEV_FENCE_WAIT)
                 (nvdla_fill_wait_fence_action env queue) (prefences task) 0 s0;
          r2 = and_then r1 (fill_loop (\<lambda>_. False)
                 (nvdla_fill_taskstatus_read_action env) (in_task_status task));
          r3 = and_then r2 (fill_loop (\<lambda>_. False)
                 (nvdla_fill_taskstatus_write_action env) (sof_task_status task));
          r4 = and_then r3 (fill_loop (\<lambda>_. False)
                 (nvdla_fill_timestamp_write_action env) (sof_timestamps task));
          r5 = and_then r4 (fill_loop
                 (\<lambda>f. action f \<noteq> NVDEV_FENCE_SIGNAL \<and> action f \<noteq> NVDEV_FENCE_SIGNAL_STRIDE)
                 (nvdla_fill_signal_fence_action env queue) (prefences task))
      in
      case r5 of
        Inl (err, s) \<Rightarrow> (err, fs_task s, fs_buffers s)
      | Inr (err, s) \<Rightarrow>
          (let m = add_opcode (fs_next s) ACTION_TERMINATE; t = fs_task s in
           (err, t\<lparr>task_desc := (task_desc t)\<lparr>preactionl := Some m\<rparr>\<rparr>, fs_buffers s)))"

definition nvdla_fill_postactions ::
  "nvdla_env \<Rightarrow> nvdla_queue \<Rightarrow> nvdla_task \<Rightarrow> nvdla_buffers \<Rightarrow> int \<times> nvdla_task \<times> nvdla_buffers"
where
  "nvdla_fill_postactions env queue task bufs =
     (let s0 = \<lparr>fs_task = task, fs_buffers = bufs,
                fs_next = add_status_action [] ACTION_WRITE_TASK_STATUS
                            (task_desc_pa task + profile_status_offset env) 0\<rparr>;
          r1 = fill_loop (\<lambda>_. False)
                 (nvdla_fill_timestamp_write_action env) (eof_timestamps task) 0 s0;
          r2 = and_then r1 (fill_loop (\<lambda>_. False)
                 (nvdla_fill_taskstatus_write_action env) (eof_task_status task));
          r3 = and_then r2 (fill_loop (\<lambda>_. False)
                 (nvdla_fill_signal_fence_action env queue) (postfences task))
      in
      case r3 of
        Inl (err, s) \<Rightarrow> (err, fs_task s, fs_buffers s)
      | Inr (err, s) \<Rightarrow>
          (let m = add_opcode (fs_next s) ACTION_TERMINATE; t = fs_task s in
           (err, t\<lparr>task_desc := (task_desc t)\<lparr>postactionl := Some m\<rparr>\<rparr>, fs_buffers s)))"

section \<open>Pinning and unpinning task memory\<close>

text \<open>The loop of \<^verbatim>\<open>nvdla_map_task_memory\<close> over the address list.\<close>

fun map_loop ::
  "nvdla_env \<Rightarrow> nvdla_mem_handle list \<Rightarrow> int \<Rightarrow> nvdla_buffers \<Rightarrow> u64 list
     \<Rightarrow> int \<times> nvdla_buffers \<times> u64 list"
where
  "map_loop env [] err bufs m = (err, bufs, m)"
| "map_loop env (h # hs) err bufs m =
     (if btype h = NVDLA_BUFFER_TYPE_INTERNAL then
        map_loop env hs err bufs (add_address m (ucast (offset h)))
      else if handle h = 0 then (- EFAULT, bufs, m)
      else (let (perr, dma_addr, bufs') = nvdla_buffer_submit_pin env bufs (handle h) in
            if perr \<noteq> 0 then (perr, bufs, m)
            else map_loop env hs perr bufs' (add_address m (dma_addr + ucast (offset h)))))"

definition nvdla_map_task_memory ::
  "nvdla_env \<Rightarrow> nvdla_task \<Rightarrow> nvdla_buffers \<Rightarrow> int \<times> nvdla_task \<times> nvdla_buffers" where
  "nvdla_map_task_memory env task bufs =
     (let (err, bufs', m) = map_loop env (memory_handles task) 0 bufs [] in
      (err,
       task\<lparr>task_desc := (task_desc task)\<lparr>address_list := m,
                td_num_addresses := length (memory_handles task)\<rparr>\<rparr>,
       bufs'))"

definition nvdla_unmap_task_memory :: "nvdla_task \<Rightarrow> nvdla_buffers \<Rightarrow> int \<times> nvdla_buffers" where
  "nvdla_unmap_task_memory task bufs =
     (let sem_unpin = (\<lambda>b f.
            if (ftype f = NVDEV_FENCE_TYPE_SEMAPHORE \<or> ftype f = NVDEV_FENCE_TYPE_SEMAPHORE_TS)
               \<and> semaphore_handle f \<noteq> 0
            then nvdla_buffer_submit_unpin b (semaphore_handle f) else b);
          status_unpin = (\<lambda>b ts.
            if st_handle ts \<noteq> 0 then nvdla_buffer_submit_unpin b (st_handle ts) else b);
          timestamp_unpin = (\<lambda>b ts.
            if handle ts \<noteq> 0 then nvdla_buffer_submit_unpin b (handle ts) else b);
          b1 = foldl (\<lambda>b h.
                 if btype h = NVDLA_BUFFER_TYPE_INTERNAL then b
                 else if handle h \<noteq> 0 then nvdla_buffer_submit_unpin b (handle h) else b)
                 bufs (memory_handles task);
          b2 = foldl sem_unpin b1 (prefences task);
          b3 = foldl status_unpin b2 (in_task_status task);
          b4 = foldl sem_unpin b3 (postfences task);
          b5 = foldl status_unpin b4 (sof_task_status task);
          b6 = foldl status_unpin b5 (eof_task_status task);
          b7 = foldl timestamp_unpin b6 (sof_timestamps task);
          b8 = foldl timestamp_unpin b7 (eof_timestamps task)
      in (0, b8))"

section \<open>The device state\<close>

datatype submit_mode = NVDLA_SUBMIT_MODE_MMIO | NVDLA_SUBMIT_MODE_CHANNEL

text \<open>
  A command handed to the engine (\<^verbatim>\<open>struct nvdla_cmd_data\<close>): the method with its data,
  the descriptor address for a submit and the queue id for a flush.
\<close>

datatype dla_cmd = DLA_CMD_SUBMIT_TASK u64 | DLA_CMD_QUEUE_FLUSH u32

text \<open>
  The state the queue operations work on: the queue, kernel memory holding the task
  structs by address, the buffer registry, the queue's syncpoint as the host keeps it
  (\<open>syncpt_min\<close> is the value reached, \<open>syncpt_max\<close> the value reserved), the power
  reference count, and records of the calls made to the collaborators. \<open>completed\<close> is the
  record of the "task completed" messages of \<^verbatim>\<open>nvdla_task_free_locked\<close>, and \<open>released\<close>
  the task memory given back to the pool.
\<close>

record nvdla_world =
  queue :: nvdla_queue
  tasks :: "nat \<Rightarrow> nvdla_task"
  buffers :: nvdla_buffers
  submit_mode :: submit_mode
  syncpt_min :: u32
  syncpt_max :: u32
  pm_refcount :: int
  idle_mult_calls :: "int list"
  cmds :: "dla_cmd list"
  notifiers :: "u32 list"
  queue_kref :: int
  completed :: "nat list"
  released :: "nat list"

text \<open>
  The return codes of the collaborators during one operation: \<open>send_cmd_ret k\<close> is the
  code of the \<open>k\<close>-th call of \<^verbatim>\<open>nvdla_send_cmd\<close>.
\<close>

record nvdla_ext =
  module_busy_ret :: int
  send_cmd_channel_ret :: int
  intr_register_ret :: int
  send_cmd_ret :: "nat \<Rightarrow> int"

text \<open>
  Modelled from the spec: the hardware counter service (the \<^verbatim>\<open>nvhost_syncpt_*\<close> functions
  are not in the sources). \<open>increment_max\<close> reserves \<open>n\<close> increments and returns the new
  maximum, \<open>set_min_to\<close> forces the counter to a value, and a target is expired once the
  counter has reached or passed it, compared on 32 bits with wrap-around.
\<close>

definition nvhost_syncpt_incr_max_ext :: "u32 \<Rightarrow> nvdla_world \<Rightarrow> u32 \<times> nvdla_world" where
  "nvhost_syncpt_incr_max_ext incrs w =
     (syncpt_max w + incrs, w\<lparr>syncpt_max := syncpt_max w + incrs\<rparr>)"

definition nvhost_syncpt_read_maxval :: "nvdla_world \<Rightarrow> u32" where
  "nvhost_syncpt_read_maxval w = syncpt_max w"

definition nvhost_syncpt_set_min_update :: "u32 \<Rightarrow> nvdla_world \<Rightarrow> nvdla_world" where
  "nvhost_syncpt_set_min_update val w = w\<lparr>syncpt_min := val\<rparr>"

definition nvhost_syncpt_is_expired_ext :: "nvdla_world \<Rightarrow> u32 \<Rightarrow> bool" where
  "nvhost_syncpt_is_expired_ext w thresh = (0 \<le> sint (syncpt_min w - thresh))"

text \<open>
  Modelled from the spec: the power/clock service. \<open>acquire\<close> may fail and takes one
  reference when it succeeds; \<open>release\<close> and \<open>release_n\<close> give references back.
\<close>

definition nvhost_module_busy :: "nvdla_ext \<Rightarrow> nvdla_world \<Rightarrow> int \<times> nvdla_world" where
  "nvhost_module_busy ext w =
     (if module_busy_ret ext \<noteq> 0 then (module_busy_ret ext, w)
      else (0, w\<lparr>pm_refcount := pm_refcount w + 1\<rparr>))"

definition nvhost_module_idle :: "nvdla_world \<Rightarrow> nvdla_world" where
  "nvhost_module_idle w = w\<lparr>pm_refcount := pm_refcount w - 1\<rparr>"

definition nvhost_module_idle_mult :: "int \<Rightarrow> nvdla_world \<Rightarrow> nvdla_world" where
  "nvhost_module_idle_mult n w =
     w\<lparr>pm_refcount := pm_refcount w - n, idle_mult_calls := idle_mult_calls w @ [n]\<rparr>"

text \<open>
  Modelled from the spec: the notifier service registers a callback keyed on the target
  value, and the command dispatch service sends a command by register write
  (\<^verbatim>\<open>nvdla_send_cmd\<close>) or through the host command stream (\<^verbatim>\<open>nvdla_send_cmd_channel\<close>).
  A task's target is the cumulative count of increments, so a channel submission that
  succeeds reserves the task's \<open>fence_counter\<close> increments and leaves the new maximum in
  the task's \<open>fence\<close>.
\<close>

definition nvhost_intr_register_notifier ::
  "nvdla_ext \<Rightarrow> u32 \<Rightarrow> nvdla_world \<Rightarrow> int \<times> nvdla_world" where
  "nvhost_intr_register_notifier ext thresh w =
     (if intr_register_ret ext \<noteq> 0 then (intr_register_ret ext, w)
      else (0, w\<lparr>notifiers := notifiers w @ [thresh]\<rparr>))"

definition nvdla_send_cmd :: "nvdla_ext \<Rightarrow> nat \<Rightarrow> dla_cmd \<Rightarrow> nvdla_world \<Rightarrow> int \<times> nvdla_world" where
  "nvdla_send_cmd ext k cmd w = (send_cmd_ret ext k, w\<lparr>cmds := cmds w @ [cmd]\<rparr>)"

definition nvdla_send_cmd_channel ::
  "nvdla_ext \<Rightarrow> dla_cmd \<Rightarrow> nat \<Rightarrow> nvdla_world \<Rightarrow> int \<times> nvdla_world" where
  "nvdla_send_cmd_channel ext cmd p w =
     (if send_cmd_channel_ret ext \<noteq> 0 then (send_cmd_channel_ret ext, w)
      else
        (let (f, w') = nvhost_syncpt_incr_max_ext (fence_counter (tasks w p)) w in
         (0, w'\<lparr>tasks := (tasks w')(p := (tasks w' p)\<lparr>fence := f\<rparr>),
                 cmds := cmds w' @ [cmd]\<rparr>)))"

section \<open>Task references\<close>

text \<open>
  \<^verbatim>\<open>nvdla_queue_get\<close> and \<^verbatim>\<open>nvdla_queue_put\<close> count the references on the queue;
  \<^verbatim>\<open>kref_put\<close> calls \<^verbatim>\<open>task_free\<close>, which gives the task memory back, when the count
  of the task reaches zero.
\<close>

definition nvdla_task_get :: "nat \<Rightarrow> nvdla_world \<Rightarrow> nvdla_world" where
  "nvdla_task_get p w =
     w\<lparr>queue_kref := queue_kref w + 1,
       tasks := (tasks w)(p := (tasks w p)\<lparr>kref := kref (tasks w p) + 1\<rparr>)\<rparr>"

definition nvdla_task_put :: "nat \<Rightarrow> nvdla_world \<Rightarrow> nvdla_world" where
  "nvdla_task_put p w =
     (let k = kref (tasks w p) - 1;
          w1 = w\<lparr>tasks := (tasks w)(p := (tasks w p)\<lparr>kref := k\<rparr>)\<rparr>;
          w2 = (if k = 0 then w1\<lparr>released := released w1 @ [p]\<rparr> else w1)
      in w2\<lparr>queue_kref := queue_kref w2 - 1\<rparr>)"

definition nvdla_task_free_locked :: "nat \<Rightarrow> nvdla_world \<Rightarrow> nvdla_world" where
  "nvdla_task_free_locked p w =
     (let w0 = w\<lparr>completed := completed w @ [p]\<rparr>;
          w1 = w0\<lparr>buffers := snd (nvdla_unmap_task_memory (tasks w0 p) (buffers w0))\<rparr>;
          w2 = w1\<lparr>queue := (queue w1)\<lparr>tasklist := remove1 p (tasklist (queue w1))\<rparr>\<rparr>
      in nvdla_task_put p w2)"

section \<open>Completion\<close>



section \<open>Building the task descriptor\<close>

definition UINT_MAX :: u32 where "UINT_MAX = 0xFFFFFFFF"

text \<open>
  \<^verbatim>\<open>nvdla_fill_task_desc\<close> advances the sequence number of the queue, resets the fence
  counter, fills the two action lists and pins the task memory; every failure goes through
  \<^verbatim>\<open>fail_to_map_mem\<close>, which unmaps the task and returns the error. The descriptor fields
  that receive constants of headers outside this file (\<^verbatim>\<open>version\<close>, \<^verbatim>\<open>engine_id\<close>,
  \<^verbatim>\<open>size\<close>, \<^verbatim>\<open>num_preactions\<close>, \<^verbatim>\<open>num_postactions\<close> and the offsets of the two list heads)
  are not part of the record: no statement below reads them.
\<close>

definition nvdla_fill_task_desc ::
  "nvdla_env \<Rightarrow> nat \<Rightarrow> bool \<Rightarrow> nvdla_world \<Rightarrow> int \<times> nvdla_world" where
  "nvdla_fill_task_desc env p bypass_exec w =
     (let task = tasks w p;
          seq = sequence (queue w) + 1;
          queue' = (queue w)\<lparr>sequence := (if seq \<ge> UINT_MAX - 1 then 0 else seq)\<rparr>;
          t0 = task\<lparr>task_desc := (task_desc task)\<lparr>td_timeout := timeout task,
                     td_bypass_exec := bypass_exec,
                     td_sequence := sequence queue',
                     td_queue_id := q_id queue'\<rparr>,
                   fence_counter := 0\<rparr>;
          finish = (\<lambda>err t b. (err, w\<lparr>queue := queue', tasks := (tasks w)(p := t), buffers := b\<rparr>));
          fail_to_map_mem = (\<lambda>err t b. finish err t (snd (nvdla_unmap_task_memory t b)));
          (err1, t1, b1) = nvdla_fill_preactions env queue' t0 (buffers w)
      in
      if err1 \<noteq> 0 then fail_to_map_mem err1 t1 b1
      else
        (let (err2, t2, b2) = nvdla_fill_postactions env queue' t1 b1 in
         if err2 \<noteq> 0 then fail_to_map_mem err2 t2 b2
         else
           (let (err3, t3, b3) = nvdla_map_task_memory env t2 b2 in
            if err3 \<noteq> 0 then fail_to_map_mem err3 t3 b3
            else finish 0 t3 b3)))"

section \<open>Signal fence values\<close>

text \<open>
  The loop that \<^verbatim>\<open>nvdla_get_signal_fences\<close> and \<^verbatim>\<open>nvdla_emulator_submit\<close> both run over
  the prefences and then over the postfences: it returns the fences and the local
  \<^verbatim>\<open>counter\<close>.
\<close>

fun signal_fence_loop ::
  "u32 \<Rightarrow> u32 \<Rightarrow> nvdev_fence list \<Rightarrow> u32 \<Rightarrow> nvdev_fence list \<times> u32" where
  "signal_fence_loop sp_id task_fence [] counter = ([], counter)"
| "signal_fence_loop sp_id task_fence (f # fs) counter =
     (if action f \<noteq> NVDEV_FENCE_SIGNAL then
        (let (fs', c') = signal_fence_loop sp_id task_fence fs counter in (f # fs', c'))
      else if ftype f = NVDEV_FENCE_TYPE_SYNCPT \<or> ftype f = NVDEV_FENCE_TYPE_SYNC_FD then
        (let f' = f\<lparr>syncpoint_index := sp_id, syncpoint_value := task_fence - counter\<rparr>;
             (fs', c') = signal_fence_loop sp_id task_fence fs (counter - 1)
         in (f' # fs', c'))
      else
        (let (fs', c') = signal_fence_loop sp_id task_fence fs counter in (f # fs', c')))"

definition nvdla_get_signal_fences :: "nat \<Rightarrow> nvdla_world \<Rightarrow> int \<times> nvdla_world" where
  "nvdla_get_signal_fences p w =
     (let task = tasks w p;
          task1 = (if fence_counter task = 0 then task\<lparr>fence_counter := 1\<rparr> else task);
          task_fence = nvhost_syncpt_read_maxval w + fence_counter task1;
          counter = fence_counter task1 - 1;
          (pre, counter1) =
             signal_fence_loop (syncpt_id (queue w)) task_fence (prefences task1) counter;
          (post, counter2) =
             signal_fence_loop (syncpt_id (queue w)) task_fence (postfences task1) counter1
      in (0, w\<lparr>tasks := (tasks w)(p := task1\<lparr>prefences := pre, postfences := post\<rparr>)\<rparr>))"

text \<open>\<^verbatim>\<open>struct nvdla_emu_task\<close>, with its fields prefixed.\<close>

record nvdla_emu_task =
  emu_prefences :: "nvdev_fence list"
  emu_postfences :: "nvdev_fence list"
  emu_fence :: u32
  emu_fence_counter :: u32

text \<open>
  The counting loops of \<^verbatim>\<open>nvdla_emulator_submit\<close>: \<open>Inl\<close> is the \<^verbatim>\<open>return -EINVAL\<close> of an
  invalid sync type, with the count reached.
\<close>

fun emu_count_loop :: "nvdev_fence list \<Rightarrow> u32 \<Rightarrow> u32 + u32" where
  "emu_count_loop [] c = Inr c"
| "emu_count_loop (f # fs) c =
     (if action f \<noteq> NVDEV_FENCE_SIGNAL then emu_count_loop fs c
      else (case ftype f of
              NVDEV_FENCE_TYPE_SYNCPT \<Rightarrow> emu_count_loop fs (c + 1)
            | NVDEV_FENCE_TYPE_SYNC_FD \<Rightarrow> emu_count_loop fs (c + 1)
            | _ \<Rightarrow> Inl c))"

definition nvdla_emulator_submit ::
  "nvdla_emu_task \<Rightarrow> nvdla_world \<Rightarrow> int \<times> nvdla_emu_task \<times> nvdla_world" where
  "nvdla_emulator_submit task w =
     (case emu_count_loop (emu_prefences task) 0 of
        Inl c \<Rightarrow> (- EINVAL, task\<lparr>emu_fence_counter := c\<rparr>, w)
      | Inr c1 \<Rightarrow>
          (case emu_count_loop (emu_postfences task) c1 of
             Inl c \<Rightarrow> (- EINVAL, task\<lparr>emu_fence_counter := c\<rparr>, w)
           | Inr c2 \<Rightarrow>
               (let (f, w') = nvhost_syncpt_incr_max_ext c2 w;
                    counter = c2 - 1;
                    (pre, counter1) =
                       signal_fence_loop (syncpt_id (queue w)) f (emu_prefences task) counter;
                    (post, counter2) =
                       signal_fence_loop (syncpt_id (queue w)) f (emu_postfences task) counter1
                in (0, task\<lparr>emu_fence_counter := c2, emu_fence := f,
                             emu_prefences := pre, emu_postfences := post\<rparr>, w'))))"

section \<open>Submission\<close>

text \<open>
  The steps of \<^verbatim>\<open>nvdla_queue_submit_op\<close> between taking the task reference and taking the
  power reference, each under the name of its comment in the code: the fence is reserved
  in MMIO mode, the descriptor of the last queued task is linked to the new one, and the
  task is added to the tail of the list.
\<close>

definition get_fence_for_mmio :: "nat \<Rightarrow> nvdla_world \<Rightarrow> nvdla_world" where
  "get_fence_for_mmio p w =
     (if submit_mode w = NVDLA_SUBMIT_MODE_MMIO then
        (let (f, w') = nvhost_syncpt_incr_max_ext (fence_counter (tasks w p)) w in
         w'\<lparr>tasks := (tasks w')(p := (tasks w' p)\<lparr>fence := f\<rparr>)\<rparr>)
      else w)"

definition update_last_task_next :: "nat \<Rightarrow> nvdla_world \<Rightarrow> nvdla_world" where
  "update_last_task_next p w =
     (if tasklist (queue w) \<noteq> [] then
        (let last_task = last (tasklist (queue w));
             lt = tasks w last_task in
         w\<lparr>tasks := (tasks w)(last_task :=
                lt\<lparr>task_desc := (task_desc lt)\<lparr>td_next := task_desc_pa (tasks w p)\<rparr>\<rparr>)\<rparr>)
      else w)"

definition list_add_tail :: "nat \<Rightarrow> nvdla_world \<Rightarrow> nvdla_world" where
  "list_add_tail p w = w\<lparr>queue := (queue w)\<lparr>tasklist := tasklist (queue w) @ [p]\<rparr>\<rparr>"

text \<open>The two exits of \<^verbatim>\<open>nvdla_queue_submit_op\<close> through its failure labels.\<close>

definition fail_to_poweron :: "nat \<Rightarrow> int \<Rightarrow> nvdla_world \<Rightarrow> int \<times> nvdla_world" where
  "fail_to_poweron p err w = (err, nvdla_task_free_locked p w)"

definition fail_to_register :: "nat \<Rightarrow> int \<Rightarrow> nvdla_world \<Rightarrow> int \<times> nvdla_world" where
  "fail_to_register p err w = fail_to_poweron p err (nvhost_module_idle w)"

definition nvdla_queue_submit_op ::
  "nvdla_env \<Rightarrow> nvdla_ext \<Rightarrow> nat \<Rightarrow> nvdla_world \<Rightarrow> int \<times> nvdla_world" where
  "nvdla_queue_submit_op env ext p w =
     (let err = 0;
          w4 = list_add_tail p
                 (update_last_task_next p (get_fence_for_mmio p (nvdla_task_get p w)));
          cmd = DLA_CMD_SUBMIT_TASK (task_desc_pa (tasks w4 p));
          (busy, w5) = nvhost_module_busy ext w4
      in
      if busy \<noteq> 0 then fail_to_poweron p err w5
      else
        (let (err1, w6) =
               (if submit_mode w5 = NVDLA_SUBMIT_MODE_CHANNEL
                then nvdla_send_cmd_channel ext cmd p w5 else (err, w5))
         in
         if err1 \<noteq> 0 then fail_to_register p err1 w6
         else
           (let (err2, w7) = nvhost_intr_register_notifier ext (fence (tasks w6 p)) w6 in
            if err2 \<noteq> 0 then fail_to_register p err2 w7
            else if submit_mode w7 = NVDLA_SUBMIT_MODE_MMIO then
              (let (err3, w8) = nvdla_send_cmd ext 0 cmd w7 in
               if err3 \<noteq> 0
               then (err3, nvhost_syncpt_set_min_update (fence (tasks w8 p)) w8)
               else (err3, w8))
            else (err2, w7))))"

section \<open>Abort\<close>

definition NVDLA_QUEUE_ABORT_TIMEOUT :: nat where "NVDLA_QUEUE_ABORT_TIMEOUT = 10000"
definition NVDLA_QUEUE_ABORT_RETRY_PERIOD :: nat where "NVDLA_QUEUE_ABORT_RETRY_PERIOD = 500"

text \<open>
  The flush loop of \<^verbatim>\<open>nvdla_queue_abort_op\<close>, a \<^verbatim>\<open>do ... while (--retry)\<close> entered with
  \<^verbatim>\<open>retry\<close> at \<open>Suc r\<close>; \<open>k\<close> counts the commands sent. It returns \<^verbatim>\<open>err\<close>, \<^verbatim>\<open>retry\<close> and
  the state. The delay between two tries is not modelled.
\<close>

fun flush_loop ::
  "nvdla_env \<Rightarrow> nvdla_ext \<Rightarrow> dla_cmd \<Rightarrow> nat \<Rightarrow> nat \<Rightarrow> nvdla_world \<Rightarrow> int \<times> nat \<times> nvdla_world"
where
  "flush_loop env ext cmd k 0 w =
     (let (err, w') = nvdla_send_cmd ext k cmd w in
      if err = DLA_ERR_PROCESSOR_BUSY env then (err, 0, w') else (err, Suc 0, w'))"
| "flush_loop env ext cmd k (Suc r) w =
     (let (err, w') = nvdla_send_cmd ext k cmd w in
      if err = DLA_ERR_PROCESSOR_BUSY env then flush_loop env ext cmd (Suc k) r w'
      else (err, Suc (Suc r), w'))"

definition nvdla_queue_abort_op :: "nvdla_env \<Rightarrow> nvdla_ext \<Rightarrow> nvdla_world \<Rightarrow> int \<times> nvdla_world" where
  "nvdla_queue_abort_op env ext w =
     (let err = 0;
          retry = NVDLA_QUEUE_ABORT_TIMEOUT div NVDLA_QUEUE_ABORT_RETRY_PERIOD
      in
      if tasklist (queue w) = [] then (err, w)
      else
        (let (err1, w1) = nvhost_module_busy ext w in
         if err1 \<noteq> 0 then (err1, w1)
         else
           (let cmd = DLA_CMD_QUEUE_FLUSH (q_id (queue w1));
                (err2, retry', w2) = flush_loop env ext cmd 0 (retry - 1) w1
            in
            if retry' = 0 \<or> err2 \<noteq> 0 then (err2, nvhost_module_idle w2)
            else
              (let w3 = (if tasklist (queue w2) \<noteq> [] then
                           (let maxval = nvhost_syncpt_read_maxval w2 in
                            nvhost_syncpt_set_min_update maxval w2)
                         else w2)
               in (err2, nvhost_module_idle w3)))))"

section \<open>The layout of the action lists, as specified\<close>








section \<open>Notions used in the statements\<close>

text \<open>A fence whose value the signal fence loop rewrites, and the values of those fences.\<close>

definition is_syncpt_signal :: "nvdev_fence \<Rightarrow> bool" where
  "is_syncpt_signal f \<longleftrightarrow>
     action f = NVDEV_FENCE_SIGNAL
     \<and> (ftype f = NVDEV_FENCE_TYPE_SYNCPT \<or> ftype f = NVDEV_FENCE_TYPE_SYNC_FD)"

definition signal_values :: "nvdev_fence list \<Rightarrow> u32 list" where
  "signal_values fs = map syncpoint_value (filter is_syncpt_signal fs)"



text \<open>
  A queued task is expired when the counter service says so of its target. The targets are
  in submission order when, along the task list, the counter is at least as far past an
  earlier target as past a later one (the distance taken on 32 bits, signed). The expired
  prefix is the tasks of the list up to the first that is not expired.
\<close>

definition task_expired :: "nvdla_world \<Rightarrow> nat \<Rightarrow> bool" where
  "task_expired w p = nvhost_syncpt_is_expired_ext w (fence (tasks w p))"



text \<open>
  What \<^verbatim>\<open>nvdla_unmap_task_memory\<close> gives back to the registry, in the order of its loops:
  the handles of the address list that are not internal, the handles of the semaphore
  prefences, the input status handles, the handles of the semaphore postfences, the
  start-of-frame and end-of-frame status handles and the start-of-frame and end-of-frame
  time stamp handles, each one only when it is not 0.
\<close>

definition sem_pinned :: "nvdev_fence \<Rightarrow> bool" where
  "sem_pinned f \<longleftrightarrow>
     (ftype f = NVDEV_FENCE_TYPE_SEMAPHORE \<or> ftype f = NVDEV_FENCE_TYPE_SEMAPHORE_TS)
     \<and> semaphore_handle f \<noteq> 0"

definition unmap_handles :: "nvdla_task \<Rightarrow> u32 list" where
  "unmap_handles task =
     map handle (filter (\<lambda>h. btype h \<noteq> NVDLA_BUFFER_TYPE_INTERNAL \<and> handle h \<noteq> 0)
                   (memory_handles task))
     @ map semaphore_handle (filter sem_pinned (prefences task))
     @ map st_handle (filter (\<lambda>ts. st_handle ts \<noteq> 0) (in_task_status task))
     @ map semaphore_handle (filter sem_pinned (postfences task))
     @ map st_handle (filter (\<lambda>ts. st_handle ts \<noteq> 0) (sof_task_status task))
     @ map st_handle (filter (\<lambda>ts. st_handle ts \<noteq> 0) (eof_task_status task))
     @ map handle (filter (\<lambda>ts. handle ts \<noteq> 0) (sof_timestamps task))
     @ map handle (filter (\<lambda>ts. handle ts \<noteq> 0) (eof_timestamps task))"

text \<open>
  A run of submissions: \<^verbatim>\<open>nvdla_queue_submit_op\<close> for each task of the list in turn, each
  with the answers its collaborators give to it.
\<close>

definition submit_all ::
  "nvdla_env \<Rightarrow> (nvdla_ext \<times> nat) list \<Rightarrow> nvdla_world \<Rightarrow> nvdla_world" where
  "submit_all env subs w =
     foldl (\<lambda>w s. snd (nvdla_queue_submit_op env (fst s) (snd s) w)) w subs"

section \<open>Notions used in the proofs about pinning\<close>

text \<open>
  \<open>pins_within b b' M\<close>: from registry state \<open>b\<close> to \<open>b'\<close> nothing was unpinned and the
  handles other than 0 that were pinned are among \<open>M\<close>. The three bounds list what each
  stage of the build can pin.
\<close>

definition pins_within :: "nvdla_buffers \<Rightarrow> nvdla_buffers \<Rightarrow> u32 multiset \<Rightarrow> bool" where
  "pins_within b b' M \<longleftrightarrow>
     (\<exists>ps. pinned b' = pinned b @ ps \<and> unpinned b' = unpinned b
           \<and> mset (filter (\<lambda>h. h \<noteq> 0) ps) \<subseteq># M)"


definition same_lists :: "nvdla_task \<Rightarrow> nvdla_task \<Rightarrow> bool" where
  "same_lists t t' \<longleftrightarrow>
     prefences t' = prefences t \<and> postfences t' = postfences t
     \<and> in_task_status t' = in_task_status t \<and> sof_task_status t' = sof_task_status t
     \<and> eof_task_status t' = eof_task_status t \<and> sof_timestamps t' = sof_timestamps t
     \<and> eof_timestamps t' = eof_timestamps t \<and> memory_handles t' = memory_handles t"




section \<open>Example inputs\<close>

definition example_env :: nvdla_env where
  "example_env =
     \<lparr>nvhost_syncpt_address = (\<lambda>i. 4096 + ucast i),
      nvhost_syncpt_is_valid_pt_ext = (\<lambda>i. i < 64),
      nvhost_fence_get = (\<lambda>fd. if fd = 3 then Some [(5, 3), (6, 9)] else None),
      pin_result = (\<lambda>h. if h = 0 \<or> h = 7 then (- 22, 0) else (0, 65536 * ucast h)),
      profile_status_offset = 2048,
      DLA_ERR_PROCESSOR_BUSY = 12\<rparr>"

definition empty_desc :: dla_task_descriptor where
  "empty_desc =
     \<lparr>td_timeout = 0, td_bypass_exec = False, td_sequence = 0, td_queue_id = 0, td_next = 0,
      preactionl = None, postactionl = None, address_list = [], td_num_addresses = 0\<rparr>"

definition empty_task :: nvdla_task where
  "empty_task =
     \<lparr>task_desc = empty_desc, task_desc_pa = 0, timeout = 0, fence = 0, fence_counter = 0,
      kref = 1, prefences = [], postfences = [], in_task_status = [], sof_task_status = [],
      eof_task_status = [], sof_timestamps = [], eof_timestamps = [], memory_handles = []\<rparr>"

definition syncpt_fence :: "fence_action \<Rightarrow> u32 \<Rightarrow> u32 \<Rightarrow> nvdev_fence" where
  "syncpt_fence a i v =
     \<lparr>ftype = NVDEV_FENCE_TYPE_SYNCPT, action = a, syncpoint_index = i, syncpoint_value = v,
      sync_fd = 0, semaphore_handle = 0, semaphore_offset = 0, semaphore_value = 0\<rparr>"

definition sem_fence :: "fence_action \<Rightarrow> u32 \<Rightarrow> u32 \<Rightarrow> u32 \<Rightarrow> nvdev_fence" where
  "sem_fence a h off v =
     \<lparr>ftype = NVDEV_FENCE_TYPE_SEMAPHORE, action = a, syncpoint_index = 0, syncpoint_value = 0,
      sync_fd = 0, semaphore_handle = h, semaphore_offset = off, semaphore_value = v\<rparr>"

definition empty_buffers :: nvdla_buffers where
  "empty_buffers = \<lparr>pinned = [], unpinned = []\<rparr>"

definition empty_world :: nvdla_world where
  "empty_world =
     \<lparr>queue = \<lparr>q_id = 2, syncpt_id = 5, sequence = 0, tasklist = []\<rparr>,
      tasks = (\<lambda>_. empty_task), buffers = empty_buffers,
      submit_mode = NVDLA_SUBMIT_MODE_MMIO, syncpt_min = 0, syncpt_max = 0, pm_refcount = 0,
      idle_mult_calls = [], cmds = [], notifiers = [], queue_kref = 1, completed = [],
      released = []\<rparr>"

definition ok_ext :: nvdla_ext where
  "ok_ext =
     \<lparr>module_busy_ret = 0, send_cmd_channel_ret = 0, intr_register_ret = 0,
      send_cmd_ret = (\<lambda>_. 0)\<rparr>"




definition dispatch_world :: "submit_mode \<Rightarrow> nvdla_world" where
  "dispatch_world m =
     empty_world\<lparr>submit_mode := m,
       tasks := (\<lambda>_. empty_task\<lparr>fence_counter := 1,
         memory_handles := [\<lparr>handle = 9, offset = 0, btype = NVDLA_BUFFER_TYPE_EXTERNAL\<rparr>]\<rparr>)\<rparr>"

definition stride_task_world :: nvdla_world where
  "stride_task_world =
     empty_world\<lparr>tasks := (\<lambda>_. empty_task\<lparr>
         prefences := [syncpt_fence NVDEV_FENCE_SIGNAL_STRIDE 0 0],
         postfences := [syncpt_fence NVDEV_FENCE_SIGNAL 0 0]\<rparr>),
       syncpt_min := 10, syncpt_max := 10\<rparr>"

definition stride_emu_task :: nvdla_emu_task where
  "stride_emu_task =
     \<lparr>emu_prefences = [syncpt_fence NVDEV_FENCE_SIGNAL_STRIDE 0 0],
      emu_postfences = [syncpt_fence NVDEV_FENCE_SIGNAL 0 0],
      emu_fence = 0, emu_fence_counter = 0\<rparr>"







section \<open>Unfolding rules\<close>

lemmas world_defs =
  nvdla_task_get_def nvdla_task_put_def nvdla_task_free_locked_def nvhost_module_busy_def
  nvhost_module_idle_def nvhost_syncpt_incr_max_ext_def nvhost_intr_register_notifier_def
  nvdla_send_cmd_def nvdla_send_cmd_channel_def nvhost_syncpt_set_min_update_def
  nvhost_syncpt_read_maxval_def get_fence_for_mmio_def update_last_task_next_def
  list_add_tail_def fail_to_poweron_def fail_to_register_def

lemmas fill_defs =
  nvdla_fill_task_desc_def nvdla_fill_preactions_def nvdla_fill_postactions_def
  nvdla_map_task_memory_def nvdla_unmap_task_memory_def and_then_def
  nvdla_fill_wait_fence_action_def nvdla_fill_signal_fence_action_def
  nvdla_fill_taskstatus_read_action_def nvdla_fill_taskstatus_write_action_def
  nvdla_fill_timestamp_write_action_def nvdla_buffer_submit_pin_def
  nvdla_buffer_submit_unpin_def add_opcode_def add_fence_action_def add_status_action_def
  add_timestamp_action_def add_address_def nvdla_add_fence_action_cb_def UINT_MAX_def
  EINVAL_def EFAULT_def

lemmas example_defs =
  example_env_def empty_desc_def empty_task_def syncpt_fence_def sem_fence_def
  empty_buffers_def empty_world_def ok_ext_def

section \<open>What each step changes\<close>

lemma remove1_snoc_notin [simp]: "p \<notin> set xs \<Longrightarrow> remove1 p (xs @ [p]) = xs"
  by (simp add: remove1_append)

lemma unmap_handles_upd [simp]:
  "unmap_handles (t\<lparr>kref := k\<rparr>) = unmap_handles t"
  "unmap_handles (t\<lparr>fence := f\<rparr>) = unmap_handles t"
  "unmap_handles (t\<lparr>fence_counter := c\<rparr>) = unmap_handles t"
  "unmap_handles (t\<lparr>task_desc := d\<rparr>) = unmap_handles t"
  by (simp_all add: unmap_handles_def)

lemma foldl_unpin:
  "pinned (foldl (\<lambda>b x. if G x then nvdla_buffer_submit_unpin b (H x) else b) b xs) = pinned b
   \<and> unpinned (foldl (\<lambda>b x. if G x then nvdla_buffer_submit_unpin b (H x) else b) b xs)
       = unpinned b @ map H (filter G xs)"
  by (induction xs arbitrary: b) (simp_all add: nvdla_buffer_submit_unpin_def)

lemma unmap_log:
  "pinned (snd (nvdla_unmap_task_memory t b)) = pinned b"
  "unpinned (snd (nvdla_unmap_task_memory t b)) = unpinned b @ unmap_handles t"
proof -
  have m: "(\<lambda>b h. if btype h = NVDLA_BUFFER_TYPE_INTERNAL then b
                  else if handle h \<noteq> 0 then nvdla_buffer_submit_unpin b (handle h) else b)
         = (\<lambda>b h. if btype h \<noteq> NVDLA_BUFFER_TYPE_INTERNAL \<and> handle h \<noteq> 0
                   then nvdla_buffer_submit_unpin b (handle h) else b)"
    by (intro ext) simp
  have s: "(\<lambda>b f. if (ftype f = NVDEV_FENCE_TYPE_SEMAPHORE \<or> ftype f = NVDEV_FENCE_TYPE_SEMAPHORE_TS)
                      \<and> semaphore_handle f \<noteq> 0
                   then nvdla_buffer_submit_unpin b (semaphore_handle f) else b)
         = (\<lambda>b f. if sem_pinned f then nvdla_buffer_submit_unpin b (semaphore_handle f) else b)"
    by (intro ext) (simp add: sem_pinned_def)
  show "pinned (snd (nvdla_unmap_task_memory t b)) = pinned b"
    "unpinned (snd (nvdla_unmap_task_memory t b)) = unpinned b @ unmap_handles t"
    unfolding nvdla_unmap_task_memory_def Let_def m s
    by (simp_all add: foldl_unpin unmap_handles_def)
qed

lemma unmap_buffers:
  "snd (nvdla_unmap_task_memory t b) = b\<lparr>unpinned := unpinned b @ unmap_handles t\<rparr>"
  by (rule nvdla_buffers.equality) (simp_all add: unmap_log)

lemma task_get_proj [simp]:
  "queue (nvdla_task_get p w) = queue w"
  "submit_mode (nvdla_task_get p w) = submit_mode w"
  "syncpt_min (nvdla_task_get p w) = syncpt_min w"
  "syncpt_max (nvdla_task_get p w) = syncpt_max w"
  "pm_refcount (nvdla_task_get p w) = pm_refcount w"
  "buffers (nvdla_task_get p w) = buffers w"
  "fence (tasks (nvdla_task_get p w) q) = fence (tasks w q)"
  "fence_counter (tasks (nvdla_task_get p w) q) = fence_counter (tasks w q)"
  "task_desc_pa (tasks (nvdla_task_get p w) q) = task_desc_pa (tasks w q)"
  "kref (tasks (nvdla_task_get p w) q) = (if q = p then kref (tasks w q) + 1 else kref (tasks w q))"
  by (simp_all add: nvdla_task_get_def)

lemma get_fence_proj [simp]:
  "queue (get_fence_for_mmio p w) = queue w"
  "submit_mode (get_fence_for_mmio p w) = submit_mode w"
  "syncpt_min (get_fence_for_mmio p w) = syncpt_min w"
  "syncpt_max (get_fence_for_mmio p w) =
     (if submit_mode w = NVDLA_SUBMIT_MODE_MMIO then syncpt_max w + fence_counter (tasks w p)
      else syncpt_max w)"
  "pm_refcount (get_fence_for_mmio p w) = pm_refcount w"
  "buffers (get_fence_for_mmio p w) = buffers w"
  "fence (tasks (get_fence_for_mmio p w) q) =
     (if q = p \<and> submit_mode w = NVDLA_SUBMIT_MODE_MMIO
      then syncpt_max w + fence_counter (tasks w p) else fence (tasks w q))"
  "fence_counter (tasks (get_fence_for_mmio p w) q) = fence_counter (tasks w q)"
  "task_desc_pa (tasks (get_fence_for_mmio p w) q) = task_desc_pa (tasks w q)"
  "kref (tasks (get_fence_for_mmio p w) q) = kref (tasks w q)"
  by (simp_all add: get_fence_for_mmio_def nvhost_syncpt_incr_max_ext_def)

lemma update_last_proj [simp]:
  "queue (update_last_task_next p w) = queue w"
  "submit_mode (update_last_task_next p w) = submit_mode w"
  "syncpt_min (update_last_task_next p w) = syncpt_min w"
  "syncpt_max (update_last_task_next p w) = syncpt_max w"
  "pm_refcount (update_last_task_next p w) = pm_refcount w"
  "buffers (update_last_task_next p w) = buffers w"
  "fence (tasks (update_last_task_next p w) q) = fence (tasks w q)"
  "fence_counter (tasks (update_last_task_next p w) q) = fence_counter (tasks w q)"
  "task_desc_pa (tasks (update_last_task_next p w) q) = task_desc_pa (tasks w q)"
  "kref (tasks (update_last_task_next p w) q) = kref (tasks w q)"
  by (simp_all add: update_last_task_next_def Let_def)

lemma list_add_tail_proj [simp]:
  "tasklist (queue (list_add_tail p w)) = tasklist (queue w) @ [p]"
  "syncpt_id (queue (list_add_tail p w)) = syncpt_id (queue w)"
  "submit_mode (list_add_tail p w) = submit_mode w"
  "syncpt_min (list_add_tail p w) = syncpt_min w"
  "syncpt_max (list_add_tail p w) = syncpt_max w"
  "pm_refcount (list_add_tail p w) = pm_refcount w"
  "buffers (list_add_tail p w) = buffers w"
  "tasks (list_add_tail p w) = tasks w"
  by (simp_all add: list_add_tail_def)

lemma module_busy_proj [simp]:
  "fst (nvhost_module_busy ext w) = module_busy_ret ext"
  "queue (snd (nvhost_module_busy ext w)) = queue w"
  "submit_mode (snd (nvhost_module_busy ext w)) = submit_mode w"
  "syncpt_min (snd (nvhost_module_busy ext w)) = syncpt_min w"
  "syncpt_max (snd (nvhost_module_busy ext w)) = syncpt_max w"
  "pm_refcount (snd (nvhost_module_busy ext w)) =
     (if module_busy_ret ext \<noteq> 0 then pm_refcount w else pm_refcount w + 1)"
  "buffers (snd (nvhost_module_busy ext w)) = buffers w"
  "tasks (snd (nvhost_module_busy ext w)) = tasks w"
  by (simp_all add: nvhost_module_busy_def)

lemma module_idle_proj [simp]:
  "queue (nvhost_module_idle w) = queue w"
  "submit_mode (nvhost_module_idle w) = submit_mode w"
  "syncpt_min (nvhost_module_idle w) = syncpt_min w"
  "syncpt_max (nvhost_module_idle w) = syncpt_max w"
  "pm_refcount (nvhost_module_idle w) = pm_refcount w - 1"
  "buffers (nvhost_module_idle w) = buffers w"
  "tasks (nvhost_module_idle w) = tasks w"
  by (simp_all add: nvhost_module_idle_def)

lemma free_locked_proj [simp]:
  "tasklist (queue (nvdla_task_free_locked p w)) = remove1 p (tasklist (queue w))"
  "syncpt_id (queue (nvdla_task_free_locked p w)) = syncpt_id (queue w)"
  "submit_mode (nvdla_task_free_locked p w) = submit_mode w"
  "syncpt_min (nvdla_task_free_locked p w) = syncpt_min w"
  "syncpt_max (nvdla_task_free_locked p w) = syncpt_max w"
  "pm_refcount (nvdla_task_free_locked p w) = pm_refcount w"
  "idle_mult_calls (nvdla_task_free_locked p w) = idle_mult_calls w"
  "completed (nvdla_task_free_locked p w) = completed w @ [p]"
  "fence (tasks (nvdla_task_free_locked p w) q) = fence (tasks w q)"
  "fence_counter (tasks (nvdla_task_free_locked p w) q) = fence_counter (tasks w q)"
  "task_desc_pa (tasks (nvdla_task_free_locked p w) q) = task_desc_pa (tasks w q)"
  "kref (tasks (nvdla_task_free_locked p w) q) = (if q = p then kref (tasks w q) - 1 else kref (tasks w q))"
  by (simp_all add: nvdla_task_free_locked_def nvdla_task_put_def Let_def)

lemma free_locked_frees:
  "tasks (nvdla_task_free_locked p w) = (tasks w)(p := (tasks w p)\<lparr>kref := kref (tasks w p) - 1\<rparr>)"
  "buffers (nvdla_task_free_locked p w)
     = (buffers w)\<lparr>unpinned := unpinned (buffers w) @ unmap_handles (tasks w p)\<rparr>"
  "released (nvdla_task_free_locked p w)
     = released w @ (if kref (tasks w p) = 1 then [p] else [])"
  "queue_kref (nvdla_task_free_locked p w) = queue_kref w - 1"
  by (simp_all add: nvdla_task_free_locked_def nvdla_task_put_def Let_def unmap_buffers)

lemma step_unmap_handles [simp]:
  "unmap_handles (tasks (nvdla_task_get p w) q) = unmap_handles (tasks w q)"
  "unmap_handles (tasks (get_fence_for_mmio p w) q) = unmap_handles (tasks w q)"
  "unmap_handles (tasks (update_last_task_next p w) q) = unmap_handles (tasks w q)"
  "unmap_handles (tasks (snd (nvdla_send_cmd_channel ext cmd p w)) q) = unmap_handles (tasks w q)"
  by (simp_all add: nvdla_task_get_def get_fence_for_mmio_def update_last_task_next_def
      nvdla_send_cmd_channel_def nvhost_syncpt_incr_max_ext_def Let_def)

lemma free_locked_buffers [simp]:
  "buffers (nvdla_task_free_locked p w)
     = (buffers w)\<lparr>unpinned := unpinned (buffers w) @ unmap_handles (tasks w p)\<rparr>"
  by (rule free_locked_frees)

lemma send_cmd_channel_proj [simp]:
  "fst (nvdla_send_cmd_channel ext cmd p w) = send_cmd_channel_ret ext"
  "queue (snd (nvdla_send_cmd_channel ext cmd p w)) = queue w"
  "submit_mode (snd (nvdla_send_cmd_channel ext cmd p w)) = submit_mode w"
  "syncpt_min (snd (nvdla_send_cmd_channel ext cmd p w)) = syncpt_min w"
  "pm_refcount (snd (nvdla_send_cmd_channel ext cmd p w)) = pm_refcount w"
  "buffers (snd (nvdla_send_cmd_channel ext cmd p w)) = buffers w"
  "kref (tasks (snd (nvdla_send_cmd_channel ext cmd p w)) q) = kref (tasks w q)"
  "fence_counter (tasks (snd (nvdla_send_cmd_channel ext cmd p w)) q) = fence_counter (tasks w q)"
  by (simp_all add: nvdla_send_cmd_channel_def nvhost_syncpt_incr_max_ext_def)

lemma register_proj [simp]:
  "fst (nvhost_intr_register_notifier ext t w) = intr_register_ret ext"
  "queue (snd (nvhost_intr_register_notifier ext t w)) = queue w"
  "submit_mode (snd (nvhost_intr_register_notifier ext t w)) = submit_mode w"
  "syncpt_min (snd (nvhost_intr_register_notifier ext t w)) = syncpt_min w"
  "syncpt_max (snd (nvhost_intr_register_notifier ext t w)) = syncpt_max w"
  "pm_refcount (snd (nvhost_intr_register_notifier ext t w)) = pm_refcount w"
  "buffers (snd (nvhost_intr_register_notifier ext t w)) = buffers w"
  "tasks (snd (nvhost_intr_register_notifier ext t w)) = tasks w"
  by (simp_all add: nvhost_intr_register_notifier_def)

lemma send_cmd_proj [simp]:
  "fst (nvdla_send_cmd ext k cmd w) = send_cmd_ret ext k"
  "queue (snd (nvdla_send_cmd ext k cmd w)) = queue w"
  "submit_mode (snd (nvdla_send_cmd ext k cmd w)) = submit_mode w"
  "syncpt_min (snd (nvdla_send_cmd ext k cmd w)) = syncpt_min w"
  "syncpt_max (snd (nvdla_send_cmd ext k cmd w)) = syncpt_max w"
  "pm_refcount (snd (nvdla_send_cmd ext k cmd w)) = pm_refcount w"
  "buffers (snd (nvdla_send_cmd ext k cmd w)) = buffers w"
  "tasks (snd (nvdla_send_cmd ext k cmd w)) = tasks w"
  "cmds (snd (nvdla_send_cmd ext k cmd w)) = cmds w @ [cmd]"
  by (simp_all add: nvdla_send_cmd_def)

lemma set_min_proj [simp]:
  "queue (nvhost_syncpt_set_min_update v w) = queue w"
  "submit_mode (nvhost_syncpt_set_min_update v w) = submit_mode w"
  "syncpt_min (nvhost_syncpt_set_min_update v w) = v"
  "syncpt_max (nvhost_syncpt_set_min_update v w) = syncpt_max w"
  "pm_refcount (nvhost_syncpt_set_min_update v w) = pm_refcount w"
  "buffers (nvhost_syncpt_set_min_update v w) = buffers w"
  "tasks (nvhost_syncpt_set_min_update v w) = tasks w"
  by (simp_all add: nvhost_syncpt_set_min_update_def)

lemma idle_mult_proj [simp]:
  "queue (nvhost_module_idle_mult n w) = queue w"
  "completed (nvhost_module_idle_mult n w) = completed w"
  "pm_refcount (nvhost_module_idle_mult n w) = pm_refcount w - n"
  "idle_mult_calls (nvhost_module_idle_mult n w) = idle_mult_calls w @ [n]"
  "syncpt_min (nvhost_module_idle_mult n w) = syncpt_min w"
  "syncpt_max (nvhost_module_idle_mult n w) = syncpt_max w"
  "tasks (nvhost_module_idle_mult n w) = tasks w"
  by (simp_all add: nvhost_module_idle_mult_def)

lemma flush_loop_proj [simp]:
  "queue (snd (snd (flush_loop env ext cmd k r w))) = queue w"
  "tasks (snd (snd (flush_loop env ext cmd k r w))) = tasks w"
  "syncpt_min (snd (snd (flush_loop env ext cmd k r w))) = syncpt_min w"
  "syncpt_max (snd (snd (flush_loop env ext cmd k r w))) = syncpt_max w"
  "pm_refcount (snd (snd (flush_loop env ext cmd k r w))) = pm_refcount w"
  "buffers (snd (snd (flush_loop env ext cmd k r w))) = buffers w"
  by (induction r arbitrary: k w; simp add: split_def Let_def)+

lemma get_signal_fences_proj [simp]:
  "fst (nvdla_get_signal_fences p w) = 0"
  "queue (snd (nvdla_get_signal_fences p w)) = queue w"
  "submit_mode (snd (nvdla_get_signal_fences p w)) = submit_mode w"
  "syncpt_min (snd (nvdla_get_signal_fences p w)) = syncpt_min w"
  "syncpt_max (snd (nvdla_get_signal_fences p w)) = syncpt_max w"
  "fence (tasks (snd (nvdla_get_signal_fences p w)) q) = fence (tasks w q)"
  "fence_counter (tasks (snd (nvdla_get_signal_fences p w)) q) =
     (if q = p \<and> fence_counter (tasks w q) = 0 then 1 else fence_counter (tasks w q))"
  by (simp_all add: nvdla_get_signal_fences_def Let_def split_def)

lemma submit_fst:
  "fst (nvdla_queue_submit_op env ext p w) =
     (if module_busy_ret ext \<noteq> 0 then 0
      else if submit_mode w = NVDLA_SUBMIT_MODE_CHANNEL \<and> send_cmd_channel_ret ext \<noteq> 0
      then send_cmd_channel_ret ext
      else if intr_register_ret ext \<noteq> 0 then intr_register_ret ext
      else if submit_mode w = NVDLA_SUBMIT_MODE_MMIO then send_cmd_ret ext 0 else 0)"
  by (cases "submit_mode w")
     (simp_all add: nvdla_queue_submit_op_def Let_def split_def fail_to_register_def
       fail_to_poweron_def)


lemma submit_mmio_proj:
  assumes "submit_mode w = NVDLA_SUBMIT_MODE_MMIO"
  shows "submit_mode (snd (nvdla_queue_submit_op env ext p w)) = NVDLA_SUBMIT_MODE_MMIO"
    "syncpt_max (snd (nvdla_queue_submit_op env ext p w)) = syncpt_max w + fence_counter (tasks w p)"
    "fence (tasks (snd (nvdla_queue_submit_op env ext p w)) q) =
       (if q = p then syncpt_max w + fence_counter (tasks w p) else fence (tasks w q))"
    "fence_counter (tasks (snd (nvdla_queue_submit_op env ext p w)) q) = fence_counter (tasks w q)"
  using assms
  by (simp_all add: nvdla_queue_submit_op_def Let_def split_def fail_to_register_def
       fail_to_poweron_def)

section \<open>Submission when the power reference cannot be taken\<close>

text \<open>
  Claim C1: if acquiring the power reference fails during submit, the submission is
  unwound (the task leaves the task list and its reference is dropped) and submit returns
  a non-zero error code.

  The code at such an input: one task with one counter increment is submitted to an empty
  queue and \<^verbatim>\<open>nvhost_module_busy\<close> answers \<open>-19\<close>. The submission is unwound, the task list
  is empty again and the reference count of the task is back at 1, but the value returned
  is 0: \<^verbatim>\<open>err\<close> is never assigned on this path.
\<close>

theorem submit_poweron_failure_returns_zero:
  "let r = nvdla_queue_submit_op example_env (ok_ext\<lparr>module_busy_ret := - 19\<rparr>) 1
             (empty_world\<lparr>tasks := (\<lambda>_. empty_task\<lparr>fence_counter := 1\<rparr>)\<rparr>)
   in fst r = 0
      \<and> tasklist (queue (snd r)) = []
      \<and> kref (tasks (snd r) 1) = 1
      \<and> pm_refcount (snd r) = 0"
  by (simp add: nvdla_queue_submit_op_def world_defs ok_ext_def empty_world_def empty_task_def
      nvdla_unmap_task_memory_def Let_def split_def)

section \<open>Semaphore fences whose buffer cannot be pinned\<close>

text \<open>
  Claim C2: for every semaphore-type fence whose backing buffer fails to pin during the
  action-list fill, the fill reports the pin failure to its caller, so that the task
  construction fails.

  The code at such an input: a task with one semaphore wait prefence and one semaphore
  signal postfence, both on handle 7, which the registry refuses to pin. The descriptor
  is built with return code 0, and both lists hold no action for the fences: the
  pre-action list is the terminator alone and the post-action list is the completion
  status write and the terminator.
\<close>

theorem semaphore_pin_failure_is_silent:
  "let w = empty_world\<lparr>tasks := (\<lambda>_. empty_task\<lparr>
               prefences := [sem_fence NVDEV_FENCE_WAIT 7 0 1],
               postfences := [sem_fence NVDEV_FENCE_SIGNAL 7 0 1]\<rparr>)\<rparr>;
       r = nvdla_fill_task_desc example_env 1 False w
   in fst (pin_result example_env 7) \<noteq> 0
      \<and> fst r = 0
      \<and> preactionl (task_desc (tasks (snd r) 1)) = Some [Dla_action_opcode ACTION_TERMINATE]
      \<and> postactionl (task_desc (tasks (snd r) 1)) =
          Some [Dla_action_opcode ACTION_WRITE_TASK_STATUS, Dla_action_task_status 2048 0,
                Dla_action_opcode ACTION_TERMINATE]"
  by (simp add: fill_defs example_defs Let_def split_def)

section \<open>Abort on an empty queue\<close>

text \<open>
  Claim C8: abort on a queue whose task list is empty returns success at once and changes
  nothing (no power reference, no command, no counter change), and a second abort right
  after it does the same, whatever the collaborators would have answered.
\<close>

theorem abort_empty_queue:
  "tasklist (queue w) = [] \<Longrightarrow>
     nvdla_queue_abort_op env ext w = (0, w)
     \<and> nvdla_queue_abort_op env ext' (snd (nvdla_queue_abort_op env ext w)) = (0, w)"
  by (simp add: nvdla_queue_abort_op_def)

theorem abort_empty_queue_witness:
  "tasklist (queue empty_world) = []
   \<and> nvdla_queue_abort_op example_env ok_ext empty_world = (0, empty_world)
   \<and> nvdla_queue_abort_op example_env ok_ext
        (snd (nvdla_queue_abort_op example_env ok_ext empty_world)) = (0, empty_world)"
  using abort_empty_queue [of empty_world example_env ok_ext ok_ext]
  by (simp add: empty_world_def)

section \<open>Dispatch failures\<close>

lemma submit_mmio_dispatch_failure:
  assumes "module_busy_ret ext = 0" "submit_mode w = NVDLA_SUBMIT_MODE_MMIO"
    "intr_register_ret ext = 0" "send_cmd_ret ext 0 \<noteq> 0"
  shows "fst (nvdla_queue_submit_op env ext p w) = send_cmd_ret ext 0"
    "tasklist (queue (snd (nvdla_queue_submit_op env ext p w))) = tasklist (queue w) @ [p]"
    "syncpt_min (snd (nvdla_queue_submit_op env ext p w))
          = fence (tasks (snd (nvdla_queue_submit_op env ext p w)) p)"
    "pm_refcount (snd (nvdla_queue_submit_op env ext p w)) = pm_refcount w + 1"
    "kref (tasks (snd (nvdla_queue_submit_op env ext p w)) p) = kref (tasks w p) + 1"
    "buffers (snd (nvdla_queue_submit_op env ext p w)) = buffers w"
  using assms
  by (simp_all add: nvdla_queue_submit_op_def Let_def split_def)

lemma submit_channel_dispatch_failure:
  assumes "module_busy_ret ext = 0" "submit_mode w = NVDLA_SUBMIT_MODE_CHANNEL"
    "send_cmd_channel_ret ext \<noteq> 0" "p \<notin> set (tasklist (queue w))"
  shows "fst (nvdla_queue_submit_op env ext p w) = send_cmd_channel_ret ext"
    "tasklist (queue (snd (nvdla_queue_submit_op env ext p w))) = tasklist (queue w)"
    "pm_refcount (snd (nvdla_queue_submit_op env ext p w)) = pm_refcount w"
    "kref (tasks (snd (nvdla_queue_submit_op env ext p w)) p) = kref (tasks w p)"
    "buffers (snd (nvdla_queue_submit_op env ext p w))
       = (buffers w)\<lparr>unpinned := unpinned (buffers w) @ unmap_handles (tasks w p)\<rparr>"
  using assms
  by (simp_all add: nvdla_queue_submit_op_def Let_def split_def fail_to_register_def fail_to_poweron_def)

lemma submit_register_failure:
  assumes "module_busy_ret ext = 0" "submit_mode w = NVDLA_SUBMIT_MODE_CHANNEL \<longrightarrow> send_cmd_channel_ret ext = 0"
    "intr_register_ret ext \<noteq> 0" "p \<notin> set (tasklist (queue w))"
  shows "fst (nvdla_queue_submit_op env ext p w) = intr_register_ret ext"
    "tasklist (queue (snd (nvdla_queue_submit_op env ext p w))) = tasklist (queue w)"
    "pm_refcount (snd (nvdla_queue_submit_op env ext p w)) = pm_refcount w"
    "kref (tasks (snd (nvdla_queue_submit_op env ext p w)) p) = kref (tasks w p)"
    "buffers (snd (nvdla_queue_submit_op env ext p w))
       = (buffers w)\<lparr>unpinned := unpinned (buffers w) @ unmap_handles (tasks w p)\<rparr>"
  using assms
  by (cases "submit_mode w"; simp add: nvdla_queue_submit_op_def Let_def split_def fail_to_register_def fail_to_poweron_def)+


text \<open>
  Claim C4 says that on any dispatch failure after the task was appended (channel or
  MMIO), submit reports the error and leaves the task in the task list. In channel mode
  the code does not: a failed channel submission goes through \<^verbatim>\<open>fail_to_channel_submit\<close>,
  which frees the task and takes it off the list again.
\<close>

theorem channel_failure_unwinds_list_entry:
  "let r = nvdla_queue_submit_op example_env (ok_ext\<lparr>send_cmd_channel_ret := - 5\<rparr>) 16
             (dispatch_world NVDLA_SUBMIT_MODE_CHANNEL)
   in fst r = - 5 \<and> tasklist (queue (snd r)) = [] \<and> kref (tasks (snd r) 16) = 1
      \<and> unpinned (buffers (snd r)) = [9] \<and> pm_refcount (snd r) = 0"
  by (simp add: nvdla_queue_submit_op_def world_defs ok_ext_def dispatch_world_def
      empty_world_def empty_task_def empty_buffers_def nvdla_unmap_task_memory_def
      nvdla_buffer_submit_unpin_def Let_def split_def)

text \<open>
  Claim C4, amended: when the power reference was taken, a failed MMIO dispatch is
  reported and leaves the task in the task list, with the power reference and the
  reference on the task held, nothing unpinned and the counter forced to the task's
  target, so that the completion path reclaims the task; a failed channel dispatch and a
  failed notifier registration are reported too, but they unwind through
  \<^verbatim>\<open>nvdla_task_free_locked\<close>: the task (which was not queued before) is off the list again,
  its buffers are unpinned, the reference that submit took on it is dropped and the power
  reference is given back.
\<close>

theorem submit_dispatch_failure:
  "module_busy_ret ext = 0 \<Longrightarrow>
   (submit_mode w = NVDLA_SUBMIT_MODE_MMIO \<and> intr_register_ret ext = 0
      \<and> send_cmd_ret ext 0 \<noteq> 0 \<longrightarrow>
        fst (nvdla_queue_submit_op env ext p w) = send_cmd_ret ext 0
      \<and> tasklist (queue (snd (nvdla_queue_submit_op env ext p w))) = tasklist (queue w) @ [p]
      \<and> syncpt_min (snd (nvdla_queue_submit_op env ext p w))
          = fence (tasks (snd (nvdla_queue_submit_op env ext p w)) p)
      \<and> pm_refcount (snd (nvdla_queue_submit_op env ext p w)) = pm_refcount w + 1
      \<and> kref (tasks (snd (nvdla_queue_submit_op env ext p w)) p) = kref (tasks w p) + 1
      \<and> buffers (snd (nvdla_queue_submit_op env ext p w)) = buffers w)
   \<and> (submit_mode w = NVDLA_SUBMIT_MODE_CHANNEL \<and> send_cmd_channel_ret ext \<noteq> 0
        \<and> p \<notin> set (tasklist (queue w)) \<longrightarrow>
        fst (nvdla_queue_submit_op env ext p w) = send_cmd_channel_ret ext
      \<and> tasklist (queue (snd (nvdla_queue_submit_op env ext p w))) = tasklist (queue w)
      \<and> pm_refcount (snd (nvdla_queue_submit_op env ext p w)) = pm_refcount w
      \<and> kref (tasks (snd (nvdla_queue_submit_op env ext p w)) p) = kref (tasks w p)
      \<and> buffers (snd (nvdla_queue_submit_op env ext p w))
          = (buffers w)\<lparr>unpinned := unpinned (buffers w) @ unmap_handles (tasks w p)\<rparr>)
   \<and> ((submit_mode w = NVDLA_SUBMIT_MODE_CHANNEL \<longrightarrow> send_cmd_channel_ret ext = 0)
        \<and> intr_register_ret ext \<noteq> 0 \<and> p \<notin> set (tasklist (queue w)) \<longrightarrow>
        fst (nvdla_queue_submit_op env ext p w) = intr_register_ret ext
      \<and> tasklist (queue (snd (nvdla_queue_submit_op env ext p w))) = tasklist (queue w)
      \<and> pm_refcount (snd (nvdla_queue_submit_op env ext p w)) = pm_refcount w
      \<and> kref (tasks (snd (nvdla_queue_submit_op env ext p w)) p) = kref (tasks w p)
      \<and> buffers (snd (nvdla_queue_submit_op env ext p w))
          = (buffers w)\<lparr>unpinned := unpinned (buffers w) @ unmap_handles (tasks w p)\<rparr>)"
  apply (intro conjI impI)
                 apply (simp_all add: submit_mmio_dispatch_failure submit_channel_dispatch_failure)
      apply (simp_all add: submit_register_failure)
  done

theorem submit_dispatch_failure_witness:
  "(let r = nvdla_queue_submit_op example_env (ok_ext\<lparr>send_cmd_ret := (\<lambda>_. - 5)\<rparr>) 16
              (dispatch_world NVDLA_SUBMIT_MODE_MMIO)
    in fst r = - 5 \<and> tasklist (queue (snd r)) = [16] \<and> pm_refcount (snd r) = 1
       \<and> syncpt_min (snd r) = fence (tasks (snd r) 16)
       \<and> kref (tasks (snd r) 16) = 2 \<and> unpinned (buffers (snd r)) = [])
   \<and> (let r = nvdla_queue_submit_op example_env (ok_ext\<lparr>send_cmd_channel_ret := - 5\<rparr>) 16
              (dispatch_world NVDLA_SUBMIT_MODE_CHANNEL)
      in fst r = - 5 \<and> tasklist (queue (snd r)) = [] \<and> pm_refcount (snd r) = 0
         \<and> kref (tasks (snd r) 16) = 1 \<and> unpinned (buffers (snd r)) = [9])
   \<and> (let r = nvdla_queue_submit_op example_env (ok_ext\<lparr>intr_register_ret := - 12\<rparr>) 16
              (dispatch_world NVDLA_SUBMIT_MODE_MMIO)
      in fst r = - 12 \<and> tasklist (queue (snd r)) = [] \<and> pm_refcount (snd r) = 0
         \<and> kref (tasks (snd r) 16) = 1 \<and> unpinned (buffers (snd r)) = [9])"
  using submit_dispatch_failure [of "ok_ext\<lparr>send_cmd_ret := (\<lambda>_. - 5)\<rparr>"
      "dispatch_world NVDLA_SUBMIT_MODE_MMIO" example_env 16]
    submit_dispatch_failure [of "ok_ext\<lparr>send_cmd_channel_ret := - 5\<rparr>"
      "dispatch_world NVDLA_SUBMIT_MODE_CHANNEL" example_env 16]
    submit_dispatch_failure [of "ok_ext\<lparr>intr_register_ret := - 12\<rparr>"
      "dispatch_world NVDLA_SUBMIT_MODE_MMIO" example_env 16]
  by (simp add: Let_def ok_ext_def dispatch_world_def empty_world_def empty_task_def
      empty_buffers_def unmap_handles_def)

section \<open>The completion scan\<close>

lemma task_expired_free_locked [simp]:
  "task_expired (nvdla_task_free_locked q w) p = task_expired w p"
  by (simp add: task_expired_def nvhost_syncpt_is_expired_ext_def)













section \<open>Abort with tasks queued\<close>



lemma submit_all_Nil [simp]: "submit_all env [] w = w"
  by (simp add: submit_all_def)

lemma submit_all_Cons [simp]:
  "submit_all env (s # subs) w
     = submit_all env subs (snd (nvdla_queue_submit_op env (fst s) (snd s) w))"
  by (simp add: submit_all_def)










section \<open>At least one increment for each task\<close>

lemma word_less_add_nonzero:
  fixes a b :: u32
  assumes "b \<noteq> 0" "unat a + unat b < 2 ^ 32"
  shows "a < a + b"
proof -
  have "unat (a + b) = unat a + unat b"
    using assms(2) unat_add_lem [of a b] by simp
  moreover have "0 < unat b"
    using assms(1) by (simp add: unat_gt_0)
  ultimately show ?thesis
    by (simp add: word_less_nat_alt)
qed

text \<open>
  Claim C10: \<^verbatim>\<open>nvdla_get_signal_fences\<close> forces a zero \<open>fence_counter\<close> to one, so every task
  consumes at least one counter increment, and the target of a task is strictly greater
  than the target of the task submitted before it on the queue: of two tasks submitted
  one after the other in MMIO mode, the second has the target of the first plus its own
  non-zero \<open>fence_counter\<close>, which is a different value and, unless the 32-bit counter
  wraps, a greater one.
\<close>

theorem get_signal_fences_at_least_one_increment:
  "fence_counter (tasks (snd (nvdla_get_signal_fences p w)) p)
     = (if fence_counter (tasks w p) = 0 then 1 else fence_counter (tasks w p))
   \<and> fence_counter (tasks (snd (nvdla_get_signal_fences p w)) p) \<noteq> 0
   \<and> (submit_mode w = NVDLA_SUBMIT_MODE_MMIO \<and> q \<noteq> p \<longrightarrow>
        (let w1 = snd (nvdla_queue_submit_op env ext1 q (snd (nvdla_get_signal_fences q w)));
             w2 = snd (nvdla_queue_submit_op env ext2 p (snd (nvdla_get_signal_fences p w1)))
         in syncpt_max w2 = syncpt_max w1 + fence_counter (tasks w2 p)
            \<and> fence (tasks w2 q) = syncpt_max w1
            \<and> fence (tasks w2 p) = fence (tasks w2 q) + fence_counter (tasks w2 p)
            \<and> fence (tasks w2 p) \<noteq> fence (tasks w2 q)
            \<and> (unat (fence (tasks w2 q)) + unat (fence_counter (tasks w2 p)) < 2 ^ 32 \<longrightarrow>
                  fence (tasks w2 q) < fence (tasks w2 p))))"
proof (intro conjI impI)
  show "fence_counter (tasks (snd (nvdla_get_signal_fences p w)) p)
     = (if fence_counter (tasks w p) = 0 then 1 else fence_counter (tasks w p))"
    by simp
  show "fence_counter (tasks (snd (nvdla_get_signal_fences p w)) p) \<noteq> 0"
    by simp
next
  assume a: "submit_mode w = NVDLA_SUBMIT_MODE_MMIO \<and> q \<noteq> p"
  define g0 where "g0 = snd (nvdla_get_signal_fences q w)"
  define w1 where "w1 = snd (nvdla_queue_submit_op env ext1 q g0)"
  define g1 where "g1 = snd (nvdla_get_signal_fences p w1)"
  define w2 where "w2 = snd (nvdla_queue_submit_op env ext2 p g1)"
  have m0: "submit_mode g0 = NVDLA_SUBMIT_MODE_MMIO"
    using a by (simp add: g0_def)
  have w1: "submit_mode w1 = NVDLA_SUBMIT_MODE_MMIO" "fence (tasks w1 q) = syncpt_max w1"
    unfolding w1_def by (simp_all add: submit_mmio_proj [OF m0])
  have g1: "submit_mode g1 = NVDLA_SUBMIT_MODE_MMIO" "syncpt_max g1 = syncpt_max w1"
    "fence (tasks g1 q) = syncpt_max w1" "fence_counter (tasks g1 p) \<noteq> 0"
    unfolding g1_def using w1 by simp_all
  have w2: "syncpt_max w2 = syncpt_max w1 + fence_counter (tasks g1 p)"
    "fence (tasks w2 q) = syncpt_max w1"
    "fence (tasks w2 p) = syncpt_max w1 + fence_counter (tasks g1 p)"
    "fence_counter (tasks w2 p) = fence_counter (tasks g1 p)"
    unfolding w2_def using a g1(2,3) by (simp_all add: submit_mmio_proj [OF g1(1)])
  have lt: "unat (syncpt_max w1) + unat (fence_counter (tasks g1 p)) < 2 ^ 32 \<longrightarrow>
              syncpt_max w1 < syncpt_max w1 + fence_counter (tasks g1 p)"
    using g1(4) by (simp add: word_less_add_nonzero)
  have "syncpt_max w2 = syncpt_max w1 + fence_counter (tasks w2 p)
            \<and> fence (tasks w2 q) = syncpt_max w1
            \<and> fence (tasks w2 p) = fence (tasks w2 q) + fence_counter (tasks w2 p)
            \<and> fence (tasks w2 p) \<noteq> fence (tasks w2 q)
            \<and> (unat (fence (tasks w2 q)) + unat (fence_counter (tasks w2 p)) < 2 ^ 32 \<longrightarrow>
                  fence (tasks w2 q) < fence (tasks w2 p))"
    using lt g1(4) by (simp add: w2)
  then show "let w1 = snd (nvdla_queue_submit_op env ext1 q (snd (nvdla_get_signal_fences q w)));
             w2 = snd (nvdla_queue_submit_op env ext2 p (snd (nvdla_get_signal_fences p w1)))
         in syncpt_max w2 = syncpt_max w1 + fence_counter (tasks w2 p)
            \<and> fence (tasks w2 q) = syncpt_max w1
            \<and> fence (tasks w2 p) = fence (tasks w2 q) + fence_counter (tasks w2 p)
            \<and> fence (tasks w2 p) \<noteq> fence (tasks w2 q)
            \<and> (unat (fence (tasks w2 q)) + unat (fence_counter (tasks w2 p)) < 2 ^ 32 \<longrightarrow>
                  fence (tasks w2 q) < fence (tasks w2 p))"
    unfolding Let_def w2_def g1_def w1_def g0_def .
qed


theorem get_signal_fences_at_least_one_increment_witness:
  "fence_counter (tasks (snd (nvdla_get_signal_fences 32 empty_world)) 32) = 1
   \<and> (let w1 = snd (nvdla_queue_submit_op example_env ok_ext 16
                     (snd (nvdla_get_signal_fences 16 empty_world)));
            w2 = snd (nvdla_queue_submit_op example_env ok_ext 32
                     (snd (nvdla_get_signal_fences 32 w1)))
        in fence (tasks w2 16) = 1 \<and> fence (tasks w2 32) = 2
           \<and> fence (tasks w2 16) < fence (tasks w2 32))"
  using get_signal_fences_at_least_one_increment
    [where p = 32 and w = empty_world and q = 16 and env = example_env and ?ext1.0 = ok_ext
       and ?ext2.0 = ok_ext]
  by (simp add: Let_def submit_mmio_proj empty_world_def empty_task_def)

section \<open>The values of the signal fences\<close>

text \<open>
  What the signal fence loop assigns: the fences it rewrites, taken in order, receive the
  task's fence less a counter that starts where the caller set it and goes down by one at
  each rewritten fence. \<^verbatim>\<open>nvdla_get_signal_fences\<close> starts it at \<open>fence_counter - 1\<close>, with
  the \<open>fence_counter\<close> that the build counted; \<^verbatim>\<open>nvdla_emulator_submit\<close> counts the fences
  that the loop rewrites and starts it at that count less one, so that there the last
  rewritten fence always receives the task's fence.
\<close>

lemma signal_fence_loop_append:
  "signal_fence_loop sp tf (xs @ ys) c =
     (fst (signal_fence_loop sp tf xs c)
        @ fst (signal_fence_loop sp tf ys (snd (signal_fence_loop sp tf xs c))),
      snd (signal_fence_loop sp tf ys (snd (signal_fence_loop sp tf xs c))))"
  by (induction xs arbitrary: c) (simp_all add: split_def Let_def)

lemma signal_fence_loop_values:
  "signal_values (fst (signal_fence_loop sp tf fs c))
     = map (\<lambda>i. tf - (c - of_nat i)) [0..<length (filter is_syncpt_signal fs)]"
proof (induction fs arbitrary: c)
  case Nil
  then show ?case by (simp add: signal_values_def)
next
  case (Cons f fs)
  show ?case
  proof (cases "is_syncpt_signal f")
    case True
    have "signal_values (fst (signal_fence_loop sp tf (f # fs) c))
            = (tf - c) # signal_values (fst (signal_fence_loop sp tf fs (c - 1)))"
      using True by (auto simp: signal_values_def is_syncpt_signal_def split_def Let_def)
    also have "\<dots> = (tf - c) # map (\<lambda>i. tf - (c - 1 - of_nat i))
                                   [0..<length (filter is_syncpt_signal fs)]"
      by (simp add: Cons.IH)
    also have "\<dots> = map (\<lambda>i. tf - (c - of_nat i)) [0..<Suc (length (filter is_syncpt_signal fs))]"
      by (simp add: map_upt_Suc del: upt_Suc)
    finally show ?thesis using True by simp
  next
    case False
    have "signal_values (fst (signal_fence_loop sp tf (f # fs) c))
            = signal_values (fst (signal_fence_loop sp tf fs c))"
      using False by (auto simp: signal_values_def is_syncpt_signal_def split_def Let_def)
    then show ?thesis using False by (simp add: Cons.IH)
  qed
qed

lemma emu_count_loop_count:
  "emu_count_loop fs c = Inr c' \<Longrightarrow> c' = c + of_nat (length (filter is_syncpt_signal fs))"
proof (induction fs arbitrary: c)
  case Nil
  then show ?case by simp
next
  case (Cons f fs)
  show ?case
  proof (cases "is_syncpt_signal f")
    case True
    then have "emu_count_loop fs (c + 1) = Inr c'"
      using Cons.prems by (auto simp: is_syncpt_signal_def)
    from Cons.IH [OF this] True show ?thesis by simp
  next
    case False
    then have "emu_count_loop fs c = Inr c'"
      using Cons.prems by (cases "ftype f") (auto simp: is_syncpt_signal_def split: if_splits)
    from Cons.IH [OF this] False show ?thesis by simp
  qed
qed

lemma back_to_front:
  fixes tf :: u32
  shows "map (\<lambda>i. tf - (of_nat m - 1 - of_nat i)) [0..<m] = map (\<lambda>i. tf - of_nat (m - 1 - i)) [0..<m]"
  by (rule map_cong) (auto simp: of_nat_diff)


lemma get_signal_fences_values:
  "signal_values (prefences (tasks (snd (nvdla_get_signal_fences p w)) p)
                    @ postfences (tasks (snd (nvdla_get_signal_fences p w)) p))
     = map (\<lambda>i. syncpt_max w + fence_counter (tasks (snd (nvdla_get_signal_fences p w)) p)
                  - (fence_counter (tasks (snd (nvdla_get_signal_fences p w)) p) - 1 - of_nat i))
         [0..<length (filter is_syncpt_signal (prefences (tasks w p) @ postfences (tasks w p)))]"
proof (cases "fence_counter (tasks w p) = 0")
  case True
  show ?thesis
    using signal_fence_loop_values
      [of "syncpt_id (queue w)" "syncpt_max w + 1"
          "prefences (tasks w p) @ postfences (tasks w p)" "0"]
    by (simp add: nvdla_get_signal_fences_def Let_def split_def signal_fence_loop_append
        nvhost_syncpt_read_maxval_def True)
next
  case False
  show ?thesis
    using signal_fence_loop_values
      [of "syncpt_id (queue w)" "syncpt_max w + fence_counter (tasks w p)"
          "prefences (tasks w p) @ postfences (tasks w p)" "fence_counter (tasks w p) - 1"]
    by (simp add: nvdla_get_signal_fences_def Let_def split_def signal_fence_loop_append
        nvhost_syncpt_read_maxval_def False)
qed

lemma emulator_submit_values:
  assumes "fst (nvdla_emulator_submit task w) = 0"
  shows "emu_fence (fst (snd (nvdla_emulator_submit task w)))
           = syncpt_max w + of_nat (length (filter is_syncpt_signal
                                      (emu_prefences task @ emu_postfences task)))"
    "signal_values (emu_prefences (fst (snd (nvdla_emulator_submit task w)))
                      @ emu_postfences (fst (snd (nvdla_emulator_submit task w))))
       = map (\<lambda>i. emu_fence (fst (snd (nvdla_emulator_submit task w)))
                    - of_nat (length (filter is_syncpt_signal
                                (emu_prefences task @ emu_postfences task)) - 1 - i))
           [0..<length (filter is_syncpt_signal (emu_prefences task @ emu_postfences task))]"
proof -
  let ?m = "length (filter is_syncpt_signal (emu_prefences task @ emu_postfences task))"
  obtain c1 where c1: "emu_count_loop (emu_prefences task) 0 = Inr c1"
    using assms by (cases "emu_count_loop (emu_prefences task) 0")
      (simp_all add: nvdla_emulator_submit_def EINVAL_def)
  obtain c2 where c2: "emu_count_loop (emu_postfences task) c1 = Inr c2"
    using assms c1 by (cases "emu_count_loop (emu_postfences task) c1")
      (simp_all add: nvdla_emulator_submit_def EINVAL_def)
  have m: "c2 = of_nat ?m"
    using emu_count_loop_count [OF c1] emu_count_loop_count [OF c2] by simp
  show "emu_fence (fst (snd (nvdla_emulator_submit task w))) = syncpt_max w + of_nat ?m"
    by (simp add: nvdla_emulator_submit_def c1 c2 m split_def Let_def
        nvhost_syncpt_incr_max_ext_def)
  have "signal_values (emu_prefences (fst (snd (nvdla_emulator_submit task w)))
                      @ emu_postfences (fst (snd (nvdla_emulator_submit task w))))
          = map (\<lambda>i. syncpt_max w + of_nat ?m - (of_nat ?m - 1 - of_nat i)) [0..<?m]"
    using signal_fence_loop_values
      [of "syncpt_id (queue w)" "syncpt_max w + of_nat ?m"
          "emu_prefences task @ emu_postfences task" "of_nat ?m - 1"]
    by (simp add: nvdla_emulator_submit_def c1 c2 m split_def Let_def
        nvhost_syncpt_incr_max_ext_def signal_fence_loop_append)
  also have "\<dots> = map (\<lambda>i. syncpt_max w + of_nat ?m - of_nat (?m - 1 - i)) [0..<?m]"
    by (rule back_to_front)
  finally show "signal_values (emu_prefences (fst (snd (nvdla_emulator_submit task w)))
                      @ emu_postfences (fst (snd (nvdla_emulator_submit task w))))
       = map (\<lambda>i. emu_fence (fst (snd (nvdla_emulator_submit task w))) - of_nat (?m - 1 - i))
           [0..<?m]"
    by (simp add: \<open>emu_fence (fst (snd (nvdla_emulator_submit task w))) = syncpt_max w + of_nat ?m\<close>)
qed


text \<open>
  Claim C7: when signal fence values are assigned from a counter reservation, the last
  syncpoint-type signal fence receives the task's fence value and each earlier one the
  fence less the number of signals assigned after it.

  The code at such an input: a task has a syncpoint prefence with action SignalStride and
  a syncpoint postfence with action Signal, and the counter stands at 10. The build writes
  an increment of the queue's syncpoint for each of the two fences and counts both, so
  \<open>fence_counter\<close> is 2 and the task's fence is 12. \<^verbatim>\<open>nvdla_get_signal_fences\<close> starts
  its counter at \<open>fence_counter - 1\<close> but passes over the SignalStride fence without
  counting down, so the postfence, the last signal of the task, receives 11 and not 12, a
  value the counter reaches before the task is complete. \<^verbatim>\<open>nvdla_emulator_submit\<close> at
  the same fences counts only the fences it rewrites: its task's fence is 11 and the last
  signal receives it.
\<close>

theorem stride_prefence_shifts_last_signal:
  "let w1 = snd (nvdla_fill_task_desc example_env 16 False stride_task_world);
       w2 = snd (nvdla_get_signal_fences 16 w1);
       w3 = snd (nvdla_queue_submit_op example_env ok_ext 16 w2);
       e = nvdla_emulator_submit stride_emu_task stride_task_world
   in fst (nvdla_fill_task_desc example_env 16 False stride_task_world) = 0
      \<and> fence_counter (tasks w1 16) = 2
      \<and> preactionl (task_desc (tasks w1 16)) =
          Some [Dla_action_opcode ACTION_WRITE_SEM, Dla_action_semaphore 4101 1,
                Dla_action_opcode ACTION_TERMINATE]
      \<and> postactionl (task_desc (tasks w1 16)) =
          Some [Dla_action_opcode ACTION_WRITE_TASK_STATUS, Dla_action_task_status 2048 0,
                Dla_action_opcode ACTION_WRITE_SEM, Dla_action_semaphore 4101 1,
                Dla_action_opcode ACTION_TERMINATE]
      \<and> prefences (tasks w2 16) = [syncpt_fence NVDEV_FENCE_SIGNAL_STRIDE 0 0]
      \<and> postfences (tasks w2 16) = [syncpt_fence NVDEV_FENCE_SIGNAL 5 11]
      \<and> signal_values (prefences (tasks w2 16) @ postfences (tasks w2 16)) = [11]
      \<and> fence (tasks w3 16) = 12
      \<and> fst e = 0
      \<and> emu_fence_counter (fst (snd e)) = 1
      \<and> emu_fence (fst (snd e)) = 11
      \<and> signal_values (emu_prefences (fst (snd e)) @ emu_postfences (fst (snd e))) = [11]"
proof -
  let ?w1 = "snd (nvdla_fill_task_desc example_env 16 False stride_task_world)"
  let ?w2 = "snd (nvdla_get_signal_fences 16 ?w1)"
  let ?e = "nvdla_emulator_submit stride_emu_task stride_task_world"
  have p1: "fst (nvdla_fill_task_desc example_env 16 False stride_task_world) = 0"
    "fence_counter (tasks ?w1 16) = 2"
    "prefences (tasks ?w1 16) = [syncpt_fence NVDEV_FENCE_SIGNAL_STRIDE 0 0]"
    "postfences (tasks ?w1 16) = [syncpt_fence NVDEV_FENCE_SIGNAL 0 0]"
    "syncpt_max ?w1 = 10" "submit_mode ?w1 = NVDLA_SUBMIT_MODE_MMIO"
    "syncpt_id (queue ?w1) = 5"
    by (simp_all add: fill_defs example_defs stride_task_world_def Let_def split_def)
  have a: "preactionl (task_desc (tasks ?w1 16)) =
          Some [Dla_action_opcode ACTION_WRITE_SEM, Dla_action_semaphore 4101 1,
                Dla_action_opcode ACTION_TERMINATE]"
    "postactionl (task_desc (tasks ?w1 16)) =
          Some [Dla_action_opcode ACTION_WRITE_TASK_STATUS, Dla_action_task_status 2048 0,
                Dla_action_opcode ACTION_WRITE_SEM, Dla_action_semaphore 4101 1,
                Dla_action_opcode ACTION_TERMINATE]"
    by (simp_all add: fill_defs example_defs stride_task_world_def Let_def split_def)
  have g: "prefences (tasks ?w2 16) = [syncpt_fence NVDEV_FENCE_SIGNAL_STRIDE 0 0]"
    "postfences (tasks ?w2 16) = [syncpt_fence NVDEV_FENCE_SIGNAL 5 11]"
    by (simp_all add: nvdla_get_signal_fences_def Let_def split_def p1
        nvhost_syncpt_read_maxval_def syncpt_fence_def)
  have v: "signal_values [syncpt_fence NVDEV_FENCE_SIGNAL_STRIDE 0 0,
                          syncpt_fence NVDEV_FENCE_SIGNAL 5 11] = [11]"
    by (simp add: signal_values_def is_syncpt_signal_def syncpt_fence_def)
  have m2: "submit_mode ?w2 = NVDLA_SUBMIT_MODE_MMIO" by (simp add: p1)
  have f: "fence (tasks (snd (nvdla_queue_submit_op example_env ok_ext 16 ?w2)) 16) = 12"
    by (subst submit_mmio_proj(3) [OF m2]) (simp add: p1)
  have e: "fst ?e = 0" "emu_fence_counter (fst (snd ?e)) = 1" "emu_fence (fst (snd ?e)) = 11"
    "signal_values (emu_prefences (fst (snd ?e)) @ emu_postfences (fst (snd ?e))) = [11]"
    by (simp_all add: nvdla_emulator_submit_def stride_emu_task_def stride_task_world_def
        empty_world_def syncpt_fence_def split_def Let_def nvhost_syncpt_incr_max_ext_def
        signal_values_def is_syncpt_signal_def)
  show ?thesis by (simp add: Let_def p1(1,2) a g v f e)
qed

section \<open>The order of the action lists\<close>


















section \<open>Unwinding a failed build\<close>

lemma pins_within_refl [simp]: "pins_within b b {#}"
  by (simp add: pins_within_def)



lemma same_lists_refl [simp]: "same_lists t t"
  by (simp add: same_lists_def)



























end
